theory Spec2Isabelle
  imports Complex_Main "HOL-Library.Char_ord" "HOL-Library.List_Lexorder" "HOL-Library.AList"
begin

section \<open>The agent memory store (base_agent/sql_memory.py, base_agent/memory_nodes.py)\<close>

subsection \<open>Values, rows and tables\<close>

text \<open>
  The store is an SQLite database reached through \<^verbatim>\<open>_db_read\<close>, \<^verbatim>\<open>_db_read_one\<close> and
  \<^verbatim>\<open>_db_write\<close>.  A table is the list of its rows in insertion (rowid) order; a row maps a
  column name to the stored value, \<open>VNull\<close> for a column that was never given one.
  Python values bound to a \<^verbatim>\<open>?\<close> are stored as SQLite stores them: \<^verbatim>\<open>None\<close> as NULL,
  \<^verbatim>\<open>False\<close>/\<^verbatim>\<open>True\<close> as the integers 0/1, \<^verbatim>\<open>str\<close> as text, \<^verbatim>\<open>float\<close> as a real.
  A pickled task is kept as the task it unpickles to.
\<close>

record task =
  task_class :: string
  task_state :: string
  task_memid :: "string option"

datatype val = VNull | VInt int | VReal rat | VText string | VBlob string | VPickle task

type_synonym row = "string \<Rightarrow> val"

datatype exn =
    AssertionError
  | TypeError
  | ValueError
  | KeyError
  | AttributeError
  | ProgrammingError
  | OperationalError
  | ErrorWithResponse string
  | NextDialogueStep

datatype node_class =
    MemoryNode
  | ProgramNode
  | NamedAbstractionNode
  | SetNode
  | ReferenceObjectNode
  | PlayerNode
  | SelfNode
  | LocationNode
  | AttentionNode
  | TimeNode
  | ChatNode
  | TaskNode

text \<open>
  \<^verbatim>\<open>AgentMemory\<close>: the clock (\<^verbatim>\<open>self.time\<close>), the database (\<^verbatim>\<open>self.db\<close>), the node
  registry (\<^verbatim>\<open>self.nodes\<close>) and \<^verbatim>\<open>self.self_memid\<close>.  \<^verbatim>\<open>uuid.uuid4().hex\<close> is a random
  source outside the program: the store carries the sequence of identifiers it will
  hand out and the number already drawn.
\<close>

record memory =
  time :: int
  uuid_source :: "nat \<Rightarrow> string"
  uuid_count :: nat
  db :: "string \<Rightarrow> row list"
  nodes :: "string option \<rightharpoonup> node_class"
  self_memid :: string

definition uuid4 :: "memory \<Rightarrow> string \<times> memory" where
  "uuid4 m = (uuid_source m (uuid_count m), m\<lparr>uuid_count := Suc (uuid_count m)\<rparr>)"

text \<open>
  Modelled from the spec: the Time Source (\<^verbatim>\<open>base_agent.base_util.Time\<close> is not among the
  sources), a logical clock that is read by \<^verbatim>\<open>get_time\<close> and advances on request.
\<close>

definition get_time :: "memory \<Rightarrow> int" where
  "get_time m = time m"

definition add_tick :: "int \<Rightarrow> memory \<Rightarrow> memory" where
  "add_tick ticks m = m\<lparr>time := time m + ticks\<rparr>"

subsection \<open>SQL comparison and ordering\<close>

fun num_of :: "val \<Rightarrow> rat option" where
  "num_of (VInt i) = Some (of_int i)"
| "num_of (VReal r) = Some r"
| "num_of _ = None"

text \<open>\<^verbatim>\<open>a = b\<close> in a WHERE clause: never true of NULL, numeric across integer and real.\<close>

definition sql_eq :: "val \<Rightarrow> val \<Rightarrow> bool" where
  "sql_eq a b = (a \<noteq> VNull \<and> b \<noteq> VNull \<and> (a = b \<or> (num_of a \<noteq> None \<and> num_of a = num_of b)))"

text \<open>\<^verbatim>\<open>a < b\<close> and \<^verbatim>\<open>a >= b\<close> in a WHERE clause, on numbers; NULL compares to nothing.\<close>

definition sql_lt :: "val \<Rightarrow> val \<Rightarrow> bool" where
  "sql_lt a b = (case (num_of a, num_of b) of (Some x, Some y) \<Rightarrow> x < y | _ \<Rightarrow> False)"

definition sql_ge :: "val \<Rightarrow> val \<Rightarrow> bool" where
  "sql_ge a b = (case (num_of a, num_of b) of (Some x, Some y) \<Rightarrow> x \<ge> y | _ \<Rightarrow> False)"

text \<open>The order of ORDER BY: NULL first, then numbers, then text, then blobs.\<close>

fun sql_rank :: "val \<Rightarrow> nat" where
  "sql_rank VNull = 0"
| "sql_rank (VInt _) = 1"
| "sql_rank (VReal _) = 1"
| "sql_rank (VText _) = 2"
| "sql_rank (VBlob _) = 3"
| "sql_rank (VPickle _) = 3"

definition sort_le :: "val \<Rightarrow> val \<Rightarrow> bool" where
  "sort_le a b =
     (if sql_rank a \<noteq> sql_rank b then sql_rank a < sql_rank b
      else case (a, b) of
             (VText s, VText t) \<Rightarrow> s \<le> t
           | (VBlob s, VBlob t) \<Rightarrow> s \<le> t
           | _ \<Rightarrow> (case (num_of a, num_of b) of (Some x, Some y) \<Rightarrow> x \<le> y | _ \<Rightarrow> True))"

fun insert_by :: "('a \<Rightarrow> 'a \<Rightarrow> bool) \<Rightarrow> 'a \<Rightarrow> 'a list \<Rightarrow> 'a list" where
  "insert_by le x [] = [x]"
| "insert_by le x (y # ys) = (if le x y then x # y # ys else y # insert_by le x ys)"

definition order_by :: "string \<Rightarrow> row list \<Rightarrow> row list" where
  "order_by c rs = foldr (insert_by (\<lambda>r s. sort_le (r c) (s c))) rs []"

definition order_by_desc :: "string \<Rightarrow> row list \<Rightarrow> row list" where
  "order_by_desc c rs = foldr (insert_by (\<lambda>r s. sort_le (s c) (r c))) rs []"

subsection \<open>Database access\<close>

text \<open>
  \<^verbatim>\<open>_db_read\<close> returns the selected columns of the rows found; \<^verbatim>\<open>_db_read_one\<close> the first of
  them or \<^verbatim>\<open>None\<close>.  \<^verbatim>\<open>_db_write\<close> returns the cursor's \<^verbatim>\<open>rowcount\<close>, which for an UPDATE is
  the number of rows its WHERE clause selects: SQLite counts a row it rewrites with the
  value it already had.
\<close>

definition project :: "string list \<Rightarrow> row list \<Rightarrow> val list list" where
  "project cols rs = map (\<lambda>r. map r cols) rs"

definition fetchone :: "'a list \<Rightarrow> 'a option" where
  "fetchone rs = (case rs of [] \<Rightarrow> None | r # _ \<Rightarrow> Some r)"

definition make_row :: "string list \<Rightarrow> val list \<Rightarrow> row \<Rightarrow> row" where
  "make_row cols vals dflt = fold (\<lambda>(c, v) r. r(c := v)) (zip cols vals) dflt"

definition sql_insert :: "string \<Rightarrow> row \<Rightarrow> memory \<Rightarrow> memory" where
  "sql_insert tbl r m = m\<lparr>db := (db m)(tbl := db m tbl @ [r])\<rparr>"

definition sql_update :: "string \<Rightarrow> string \<Rightarrow> val \<Rightarrow> (row \<Rightarrow> bool) \<Rightarrow> memory \<Rightarrow> nat \<times> memory" where
  "sql_update tbl c v wh m =
     (length (filter wh (db m tbl)),
      m\<lparr>db := (db m)(tbl := map (\<lambda>r. if wh r then r(c := v) else r) (db m tbl))\<rparr>)"

text \<open>
  Modelled from the spec: the schema (\<^verbatim>\<open>base_memory_schema.sql\<close> is not among the sources).
  The Entities table has the columns id, kind, created, updated and attended timestamps
  and the snapshot flag, in that order; Relations has id, subject, subject text,
  predicate id, predicate text, object, object text and confidence; in Tasks a row that
  is inserted without them has \<open>paused\<close> false and \<open>finished_at\<close> unset (negative).
\<close>

definition Memories_columns :: "string list" where
  "Memories_columns =
     [''uuid'', ''node_type'', ''create_time'', ''updated_time'', ''attended_time'', ''is_snapshot'']"

definition Triples_columns :: "string list" where
  "Triples_columns =
     [''uuid'', ''subj'', ''subj_text'', ''pred'', ''pred_text'', ''obj'', ''obj_text'', ''confidence'']"

definition no_defaults :: row where
  "no_defaults = (\<lambda>_. VNull)"

definition Tasks_defaults :: row where
  "Tasks_defaults = (\<lambda>_. VNull)(''paused'' := VInt 0, ''finished_at'' := VInt (- 1))"

definition py_bool :: "bool \<Rightarrow> val" where
  "py_bool b = VInt (if b then 1 else 0)"

definition py_str :: "string option \<Rightarrow> val" where
  "py_str s = (case s of None \<Rightarrow> VNull | Some t \<Rightarrow> VText t)"

subsection \<open>Memory nodes\<close>

fun NODE_TYPE :: "node_class \<Rightarrow> string option" where
  "NODE_TYPE MemoryNode = None"
| "NODE_TYPE ProgramNode = Some ''Program''"
| "NODE_TYPE NamedAbstractionNode = Some ''NamedAbstraction''"
| "NODE_TYPE SetNode = Some ''Set''"
| "NODE_TYPE ReferenceObjectNode = Some ''ReferenceObject''"
| "NODE_TYPE PlayerNode = Some ''Player''"
| "NODE_TYPE SelfNode = Some ''Self''"
| "NODE_TYPE LocationNode = Some ''Location''"
| "NODE_TYPE AttentionNode = Some ''Attention''"
| "NODE_TYPE TimeNode = Some ''Time''"
| "NODE_TYPE ChatNode = Some ''Time''"
| "NODE_TYPE TaskNode = Some ''Task''"

fun TABLE :: "node_class \<Rightarrow> string option" where
  "TABLE MemoryNode = None"
| "TABLE ProgramNode = Some ''Programs''"
| "TABLE NamedAbstractionNode = Some ''NamedAbstractions''"
| "TABLE SetNode = Some ''SetMems''"
| "TABLE ReferenceObjectNode = Some ''ReferenceObjects''"
| "TABLE PlayerNode = Some ''ReferenceObjects''"
| "TABLE SelfNode = Some ''ReferenceObjects''"
| "TABLE LocationNode = Some ''ReferenceObjects''"
| "TABLE AttentionNode = Some ''ReferenceObjects''"
| "TABLE TimeNode = Some ''Times''"
| "TABLE ChatNode = Some ''Chats''"
| "TABLE TaskNode = Some ''Tasks''"

fun ARCHIVE_TABLE :: "node_class \<Rightarrow> string option" where
  "ARCHIVE_TABLE ReferenceObjectNode = Some ''ArchivedReferenceObjects''"
| "ARCHIVE_TABLE PlayerNode = Some ''ArchivedReferenceObjects''"
| "ARCHIVE_TABLE SelfNode = Some ''ArchivedReferenceObjects''"
| "ARCHIVE_TABLE LocationNode = Some ''ArchivedReferenceObjects''"
| "ARCHIVE_TABLE AttentionNode = Some ''ArchivedReferenceObjects''"
| "ARCHIVE_TABLE _ = None"

fun TABLE_COLUMNS :: "node_class \<Rightarrow> string list" where
  "TABLE_COLUMNS MemoryNode = [''uuid'']"
| "TABLE_COLUMNS ProgramNode = [''uuid'', ''logical_form'']"
| "TABLE_COLUMNS NamedAbstractionNode = [''uuid'', ''name'']"
| "TABLE_COLUMNS SetNode = [''uuid'']"
| "TABLE_COLUMNS ReferenceObjectNode = [''uuid'']"
| "TABLE_COLUMNS PlayerNode =
     [''uuid'', ''eid'', ''name'', ''x'', ''y'', ''z'', ''pitch'', ''yaw'', ''ref_type'']"
| "TABLE_COLUMNS SelfNode =
     [''uuid'', ''eid'', ''name'', ''x'', ''y'', ''z'', ''pitch'', ''yaw'', ''ref_type'']"
| "TABLE_COLUMNS LocationNode = [''uuid'', ''x'', ''y'', ''z'', ''ref_type'']"
| "TABLE_COLUMNS AttentionNode = [''uuid'', ''x'', ''y'', ''z'', ''type_name'', ''ref_type'']"
| "TABLE_COLUMNS TimeNode = [''uuid'', ''time'']"
| "TABLE_COLUMNS ChatNode = [''uuid'', ''speaker'', ''chat'', ''time'']"
| "TABLE_COLUMNS TaskNode =
     [''uuid'', ''action_name'', ''pickled'', ''paused'', ''created_at'', ''finished_at'']"

definition NODELIST :: "node_class list" where
  "NODELIST =
     [TaskNode, ChatNode, LocationNode, AttentionNode, SetNode, TimeNode, PlayerNode,
      SelfNode, ProgramNode, NamedAbstractionNode]"

text \<open>\<^verbatim>\<open>MemoryNode.new\<close>: a fresh identifier and a row of the Memories table.\<close>

definition new :: "node_class \<Rightarrow> bool \<Rightarrow> memory \<Rightarrow> string \<times> memory" where
  "new cls snapshot m =
     (let (u, m1) = uuid4 m;
          t = get_time m1
      in (u,
          sql_insert ''Memories''
            (make_row Memories_columns
               [VText u, py_str (NODE_TYPE cls), VInt t, VInt t, VInt t, py_bool snapshot]
               no_defaults) m1))"

text \<open>
  A node object: its class, its \<^verbatim>\<open>memid\<close> and what its \<^verbatim>\<open>__init__\<close> read from the
  database (\<^verbatim>\<open>None\<close> when the class reads nothing or found no row).  A memid is text:
  every writer of the tables stores \<^verbatim>\<open>uuid4().hex\<close> or a string it was given.  Where a
  query hands a constructor an id that is not text, the model raises \<^verbatim>\<open>TypeError\<close>, as the
  constructors do that find no row.
\<close>

record node =
  node_class :: node_class
  memid :: string
  loaded :: "val list option"

definition read_one :: "memory \<Rightarrow> string \<Rightarrow> string list \<Rightarrow> string \<Rightarrow> val list option" where
  "read_one m tbl cols u =
     fetchone (project cols (filter (\<lambda>r. sql_eq (r ''uuid'') (VText u)) (db m tbl)))"

text \<open>
  The constructors.  Unpacking the \<^verbatim>\<open>None\<close> of a missing row raises \<^verbatim>\<open>TypeError\<close>;
  \<^verbatim>\<open>ProgramNode\<close> hands the fetched tuple to \<^verbatim>\<open>ast.literal_eval\<close>, which raises
  \<^verbatim>\<open>ValueError\<close> on anything but a string.
\<close>

fun init :: "node_class \<Rightarrow> memory \<Rightarrow> string \<Rightarrow> exn + node" where
  "init ProgramNode m u = Inl ValueError"
| "init NamedAbstractionNode m u =
     Inr \<lparr>node_class = NamedAbstractionNode, memid = u,
          loaded = read_one m ''NamedAbstractions'' [''name''] u\<rparr>"
| "init TimeNode m u =
     Inr \<lparr>node_class = TimeNode, memid = u, loaded = read_one m ''Times'' [''time''] u\<rparr>"
| "init PlayerNode m u =
     (case read_one m ''ReferenceObjects'' [''eid'', ''name'', ''x'', ''y'', ''z'', ''pitch'', ''yaw''] u of
        None \<Rightarrow> Inl TypeError
      | Some t \<Rightarrow> Inr \<lparr>node_class = PlayerNode, memid = u, loaded = Some t\<rparr>)"
| "init SelfNode m u =
     (case read_one m ''ReferenceObjects'' [''eid'', ''name'', ''x'', ''y'', ''z'', ''pitch'', ''yaw''] u of
        None \<Rightarrow> Inl TypeError
      | Some t \<Rightarrow> Inr \<lparr>node_class = SelfNode, memid = u, loaded = Some t\<rparr>)"
| "init LocationNode m u =
     (case read_one m ''ReferenceObjects'' [''x'', ''y'', ''z''] u of
        None \<Rightarrow> Inl TypeError
      | Some t \<Rightarrow> Inr \<lparr>node_class = LocationNode, memid = u, loaded = Some t\<rparr>)"
| "init AttentionNode m u =
     (case read_one m ''ReferenceObjects'' [''x'', ''y'', ''z''] u of
        None \<Rightarrow> Inl TypeError
      | Some t \<Rightarrow>
          Inr \<lparr>node_class = AttentionNode, memid = u,
               loaded = Some (t @ (case read_one m ''ReferenceObjects'' [''type_name''] u of
                                     None \<Rightarrow> [] | Some a \<Rightarrow> a))\<rparr>)"
| "init ChatNode m u =
     (case read_one m ''Chats'' [''speaker'', ''chat'', ''time''] u of
        None \<Rightarrow> Inl TypeError
      | Some t \<Rightarrow> Inr \<lparr>node_class = ChatNode, memid = u, loaded = Some t\<rparr>)"
| "init TaskNode m u =
     (case read_one m ''Tasks'' [''pickled'', ''created_at'', ''finished_at'', ''action_name''] u of
        None \<Rightarrow> Inl TypeError
      | Some t \<Rightarrow> Inr \<lparr>node_class = TaskNode, memid = u, loaded = Some t\<rparr>)"
| "init cls m u = Inr \<lparr>node_class = cls, memid = u, loaded = None\<rparr>"

subsection \<open>The task ledger\<close>

text \<open>\<^verbatim>\<open>TaskNode.create\<close>: the task learns its memid, then is pickled into the Tasks table.\<close>

definition TaskNode_create :: "task \<Rightarrow> memory \<Rightarrow> string \<times> memory" where
  "TaskNode_create tk m =
     (let (u, m1) = new TaskNode False m
      in (u,
          sql_insert ''Tasks''
            (make_row [''uuid'', ''action_name'', ''pickled'', ''created_at'']
               [VText u, VText (task_class tk), VPickle (tk\<lparr>task_memid := Some u\<rparr>),
                VInt (get_time m1)]
               Tasks_defaults) m1))"

definition active :: "row \<Rightarrow> bool" where
  "active r = (sql_lt (r ''finished_at'') (VInt 0) \<and> sql_eq (r ''paused'') (VInt 0))"

definition task_stack_peek :: "memory \<Rightarrow> exn + node option" where
  "task_stack_peek m =
     (case fetchone (project [''uuid''] (order_by_desc ''created_at'' (filter active (db m ''Tasks'')))) of
        None \<Rightarrow> Inr None
      | Some [VText u] \<Rightarrow> map_sum id Some (init TaskNode m u)
      | Some _ \<Rightarrow> Inl TypeError)"

definition task_stack_pop :: "memory \<Rightarrow> (exn + node) \<times> memory" where
  "task_stack_pop m =
     (case task_stack_peek m of
        Inl e \<Rightarrow> (Inl e, m)
      | Inr None \<Rightarrow> (Inl ValueError, m)
      | Inr (Some mem) \<Rightarrow>
          (Inr mem,
           snd (sql_update ''Tasks'' ''finished_at'' (VInt (get_time m))
                  (\<lambda>r. sql_eq (r ''uuid'') (VText (memid mem))) m)))"

definition task_stack_pause :: "memory \<Rightarrow> bool \<times> memory" where
  "task_stack_pause m =
     (let (rowcount, m1) =
            sql_update ''Tasks'' ''paused'' (VInt 1) (\<lambda>r. sql_lt (r ''finished_at'') (VInt 0)) m
      in (rowcount > 0, m1))"

definition task_stack_resume :: "memory \<Rightarrow> bool \<times> memory" where
  "task_stack_resume m =
     (let (rowcount, m1) = sql_update ''Tasks'' ''paused'' (VInt 0) (\<lambda>r. True) m
      in (rowcount > 0, m1))"

datatype cls_names = Name string | Names "string list"

text \<open>
  \<^verbatim>\<open>task_stack_find_lowest_instance\<close>.  With no names the WHERE clause is empty and
  SQLite rejects the statement; with no row found \<^verbatim>\<open>(memid,) = None\<close> raises \<^verbatim>\<open>TypeError\<close>.
\<close>

definition task_stack_find_lowest_instance :: "cls_names \<Rightarrow> memory \<Rightarrow> exn + node option" where
  "task_stack_find_lowest_instance cn m =
     (let names = (case cn of Name s \<Rightarrow> [s] | Names ss \<Rightarrow> ss)
      in if names = [] then Inl OperationalError
         else case fetchone (project [''uuid'']
                     (order_by ''created_at''
                        (filter (\<lambda>r. \<exists>n \<in> set names. sql_eq (r ''action_name'') (VText n))
                           (db m ''Tasks'')))) of
                None \<Rightarrow> Inl TypeError
              | Some [VNull] \<Rightarrow> Inr None
              | Some [VText u] \<Rightarrow> map_sum id Some (init TaskNode m u)
              | Some _ \<Rightarrow> Inl TypeError)"

subsection \<open>Named abstractions and triples\<close>

text \<open>
  \<^verbatim>\<open>NamedAbstractionNode.create\<close>: the id of the first row with that name if there is one
  (\<^verbatim>\<open>memid[0]\<close>, whatever is stored there), otherwise a new entity and a new row.
\<close>

definition NamedAbstractionNode_create :: "string \<Rightarrow> bool \<Rightarrow> memory \<Rightarrow> val \<times> memory" where
  "NamedAbstractionNode_create name snapshot m =
     (case fetchone (project [''uuid'']
             (filter (\<lambda>r. sql_eq (r ''name'') (VText name)) (db m ''NamedAbstractions''))) of
        Some found \<Rightarrow> (found ! 0, m)
      | None \<Rightarrow>
          (let (u, m1) = new NamedAbstractionNode snapshot m
           in (VText u,
               sql_insert ''NamedAbstractions''
                 (make_row [''uuid'', ''name''] [VText u, VText name] no_defaults) m1)))"

text \<open>
  \<^verbatim>\<open>add_triple(subj="", obj="", subj_text="", pred_text="has_tag", obj_text="",
  confidence=1.0)\<close>.  A string is false when it is empty.
\<close>

definition add_triple ::
  "string \<Rightarrow> string \<Rightarrow> string \<Rightarrow> string \<Rightarrow> string \<Rightarrow> rat \<Rightarrow> memory \<Rightarrow> (exn + unit) \<times> memory" where
  "add_triple subj obj subj_text pred_text obj_text confidence m =
     (if \<not> (subj \<noteq> [] \<or> subj_text \<noteq> []) then (Inl AssertionError, m)
      else if \<not> (obj \<noteq> [] \<or> obj_text \<noteq> []) then (Inl AssertionError, m)
      else if subj \<noteq> [] \<and> subj_text \<noteq> [] then (Inl AssertionError, m)
      else if obj \<noteq> [] \<and> obj_text \<noteq> [] then (Inl AssertionError, m)
      else
        (let (tid, m1) = uuid4 m;
             (pred, m2) = NamedAbstractionNode_create pred_text False m1;
             (obj', m3) = (if obj = [] then NamedAbstractionNode_create obj_text False m2
                           else (VText obj, m2));
             (subj', m4) = (if subj = [] then NamedAbstractionNode_create subj_text False m3
                            else (VText subj, m3));
             subj_text' = (if subj_text = [] then VNull else VText subj_text);
             obj_text' = (if obj_text = [] then VNull else VText obj_text)
         in (Inr (),
             sql_insert ''Triples''
               (make_row Triples_columns
                  [VText tid, subj', subj_text', pred, VText pred_text, obj', obj_text',
                   VReal confidence]
                  no_defaults) m4)))"

definition tag :: "string \<Rightarrow> string \<Rightarrow> memory \<Rightarrow> (exn + unit) \<times> memory" where
  "tag subj_memid tag_text m = add_triple subj_memid [] [] ''has_tag'' tag_text 1 m"

definition py_truthy :: "val \<Rightarrow> bool" where
  "py_truthy v =
     (case v of VNull \<Rightarrow> False | VInt i \<Rightarrow> i \<noteq> 0 | VReal r \<Rightarrow> r \<noteq> 0
      | VText s \<Rightarrow> s \<noteq> [] | VBlob b \<Rightarrow> b \<noteq> [] | VPickle _ \<Rightarrow> True)"

definition str_truthy :: "string option \<Rightarrow> bool" where
  "str_truthy s = (case s of None \<Rightarrow> False | Some t \<Rightarrow> t \<noteq> [])"

text \<open>The WHERE clause of \<^verbatim>\<open>get_triples\<close>: one \<^verbatim>\<open>column=?\<close> for each argument that is not \<^verbatim>\<open>None\<close>.\<close>

definition where_clause :: "(string \<times> string option) list \<Rightarrow> row \<Rightarrow> bool" where
  "where_clause pairs r =
     (\<forall>(c, x) \<in> set pairs. case x of None \<Rightarrow> True | Some v \<Rightarrow> sql_eq (r c) (VText v))"

text \<open>
  \<^verbatim>\<open>Triples INNER JOIN Memories as M ON Triples.subj=M.uuid WHERE M.is_snapshot=0 AND ...\<close>:
  each selected triple, once for every live Memories row it joins with.
\<close>

definition live_join :: "memory \<Rightarrow> (row \<Rightarrow> bool) \<Rightarrow> row list" where
  "live_join m wh =
     concat (map (\<lambda>t. map (\<lambda>M. t)
                        (filter (\<lambda>M. sql_eq (t ''subj'') (M ''uuid'') \<and>
                                      sql_eq (M ''is_snapshot'') (VInt 0))
                           (db m ''Memories'')))
               (filter wh (db m ''Triples'')))"

definition get_triples ::
  "string option \<Rightarrow> string option \<Rightarrow> string option \<Rightarrow> string option \<Rightarrow> string option \<Rightarrow>
   string \<Rightarrow> memory \<Rightarrow> exn + (val \<times> val \<times> val) list" where
  "get_triples subj obj subj_text pred_text obj_text return_obj_text m =
     (if \<not> ((str_truthy subj \<or> str_truthy subj_text) \<or> str_truthy pred_text \<or>
             (str_truthy obj \<or> str_truthy obj_text)) then Inl AssertionError
      else if str_truthy subj \<and> str_truthy subj_text then Inl AssertionError
      else if str_truthy obj \<and> str_truthy obj_text then Inl AssertionError
      else
        (let pairs = [(''subj'', subj), (''subj_text'', subj_text), (''pred_text'', pred_text),
                      (''obj'', obj), (''obj_text'', obj_text)];
             r = project [''subj'', ''pred_text'', ''obj'', ''obj_text'']
                   (live_join m (where_clause pairs))
         in Inr (map (\<lambda>t. let s = t ! 0; pt = t ! 1; ob = t ! 2; ot = t ! 3
                          in if return_obj_text = ''if_exists''
                             then (if py_truthy ot then (s, pt, ot) else (s, pt, ob))
                             else if return_obj_text = ''always'' then (s, pt, ot)
                             else (s, pt, ob)) r)))"

definition get_memids_by_tag :: "string \<Rightarrow> memory \<Rightarrow> val list" where
  "get_memids_by_tag tg m =
     remdups
       (concat (map (\<lambda>M. map (\<lambda>T. M ''uuid'')
                           (filter (\<lambda>T. sql_eq (T ''subj'') (M ''uuid'') \<and>
                                         sql_eq (T ''pred_text'') (VText ''has_tag'') \<and>
                                         sql_eq (T ''obj_text'') (VText tg) \<and>
                                         sql_eq (M ''is_snapshot'') (VInt 0))
                              (db m ''Triples'')))
                  (db m ''Memories'')))"

subsection \<open>Lookup by id and by recency\<close>

definition get_node_from_memid :: "memory \<Rightarrow> string \<Rightarrow> exn + val" where
  "get_node_from_memid m u =
     (case read_one m ''Memories'' [''node_type''] u of
        None \<Rightarrow> Inl TypeError
      | Some r \<Rightarrow> Inr (r ! 0))"

text \<open>\<^verbatim>\<open>self.nodes.get(node_type, MemoryNode)(self, memid)\<close>\<close>

definition construct :: "memory \<Rightarrow> val \<Rightarrow> string \<Rightarrow> exn + node" where
  "construct m node_type u =
     (case node_type of
        VNull \<Rightarrow> init MemoryNode m u
      | VText s \<Rightarrow> init (case nodes m (Some s) of None \<Rightarrow> MemoryNode | Some cls \<Rightarrow> cls) m u
      | _ \<Rightarrow> init MemoryNode m u)"

definition get_mem_by_id :: "memory \<Rightarrow> string \<Rightarrow> string option \<Rightarrow> exn + node" where
  "get_mem_by_id m u node_type =
     (case node_type of
        None \<Rightarrow> (case get_node_from_memid m u of
                   Inl e \<Rightarrow> Inl e
                 | Inr t \<Rightarrow> construct m t u)
      | Some s \<Rightarrow> construct m (VText s) u)"

text \<open>The query of \<^verbatim>\<open>get_recent_entities\<close>, and the nodes built from what it finds.\<close>

definition recent_memids :: "memory \<Rightarrow> string \<Rightarrow> int \<Rightarrow> val list" where
  "recent_memids m memtype time_window =
     map (\<lambda>r. r ''uuid'')
       (order_by_desc ''attended_time''
          (filter (\<lambda>r. sql_eq (r ''node_type'') (VText memtype) \<and>
                        sql_ge (r ''attended_time'') (VInt (get_time m - time_window)) \<and>
                        sql_eq (r ''is_snapshot'') (VInt 0))
             (db m ''Memories'')))"

fun collect :: "('a \<Rightarrow> exn + 'b) \<Rightarrow> 'a list \<Rightarrow> exn + 'b list" where
  "collect f [] = Inr []"
| "collect f (x # xs) =
     (case f x of
        Inl e \<Rightarrow> Inl e
      | Inr y \<Rightarrow> (case collect f xs of Inl e \<Rightarrow> Inl e | Inr ys \<Rightarrow> Inr (y # ys)))"

definition get_recent_entities :: "memory \<Rightarrow> string \<Rightarrow> int \<Rightarrow> exn + node list" where
  "get_recent_entities m memtype time_window =
     collect (\<lambda>v. case v of VText u \<Rightarrow> get_mem_by_id m u (Some memtype) | _ \<Rightarrow> Inl TypeError)
       (recent_memids m memtype time_window)"

subsection \<open>Chats\<close>

definition ChatNode_create :: "string \<Rightarrow> string \<Rightarrow> memory \<Rightarrow> string \<times> memory" where
  "ChatNode_create spk chat m =
     (let (u, m1) = new ChatNode False m
      in (u,
          sql_insert ''Chats''
            (make_row [''uuid'', ''speaker'', ''chat'', ''time'']
               [VText u, VText spk, VText chat, VInt (get_time m1)] no_defaults) m1))"

definition add_chat :: "string \<Rightarrow> string \<Rightarrow> memory \<Rightarrow> string \<times> memory" where
  "add_chat speaker_memid chat m = ChatNode_create speaker_memid chat m"

definition get_most_recent_incoming_chat :: "memory \<Rightarrow> int \<Rightarrow> exn + node option" where
  "get_most_recent_incoming_chat m after =
     (case fetchone (project [''uuid'']
             (order_by_desc ''time''
                (filter (\<lambda>r. r ''speaker'' \<noteq> VNull \<and> \<not> sql_eq (r ''speaker'') (VText (self_memid m)) \<and>
                              sql_ge (r ''time'') (VInt after))
                   (db m ''Chats'')))) of
        Some [VText u] \<Rightarrow> map_sum id Some (init ChatNode m u)
      | Some _ \<Rightarrow> Inl TypeError
      | None \<Rightarrow> Inr None)"

subsection \<open>Pushing a task\<close>

definition task_stack_push ::
  "task \<Rightarrow> string option \<Rightarrow> bool \<Rightarrow> memory \<Rightarrow> (exn + node) \<times> memory" where
  "task_stack_push tk parent_memid chat_effect m =
     (let (u, m1) = TaskNode_create tk m;
          (r2, m2) = (if str_truthy parent_memid
                      then add_triple u (the parent_memid) [] ''_has_parent_task'' [] 1 m1
                      else (Inr (), m1))
      in case r2 of
           Inl e \<Rightarrow> (Inl e, m2)
         | Inr _ \<Rightarrow>
             (let (r3, m3) =
                    (if chat_effect
                     then (case get_most_recent_incoming_chat m2 (- 1) of
                             Inl e \<Rightarrow> (Inl e, m2)
                           | Inr None \<Rightarrow> (Inl AssertionError, m2)
                           | Inr (Some chat) \<Rightarrow>
                               add_triple (memid chat) u [] ''chat_effect_'' [] 1 m2)
                     else (Inr (), m2))
              in case r3 of
                   Inl e \<Rightarrow> (Inl e, m3)
                 | Inr _ \<Rightarrow> (init TaskNode m3 u, m3)))"

subsection \<open>Snapshots\<close>

definition table_defaults :: "string \<Rightarrow> row" where
  "table_defaults tbl = (if tbl = ''Tasks'' then Tasks_defaults else no_defaults)"

definition link_archive_to_mem :: "string \<Rightarrow> string \<Rightarrow> memory \<Rightarrow> (exn + unit) \<times> memory" where
  "link_archive_to_mem u archive_memid m =
     (case add_triple archive_memid u [] ''_archive_of'' [] 1 m of
        (Inl e, m1) \<Rightarrow> (Inl e, m1)
      | (Inr _, m1) \<Rightarrow> add_triple u archive_memid [] ''_has_archive'' [] 1 m1)"

text \<open>
  \<^verbatim>\<open>SetNode.create\<close> writes the Memories row and then binds two values to the one
  placeholder of its INSERT, which sqlite3 refuses with \<^verbatim>\<open>ProgrammingError\<close>.
\<close>

definition SetNode_create :: "bool \<Rightarrow> memory \<Rightarrow> (exn + string) \<times> memory" where
  "SetNode_create snapshot m = (let (u, m1) = new SetNode snapshot m in (Inl ProgrammingError, m1))"

text \<open>
  \<^verbatim>\<open>snapshot\<close>, the method of \<^verbatim>\<open>MemoryNode\<close> with the override of \<^verbatim>\<open>SetNode\<close>.
  \<^verbatim>\<open>MemoryNode\<close> itself has no \<^verbatim>\<open>TABLE\<close>; \<^verbatim>\<open>raise ("...")\<close> raises \<^verbatim>\<open>TypeError\<close>, a string
  being no exception.
\<close>

definition snapshot :: "node \<Rightarrow> memory \<Rightarrow> (exn + unit) \<times> memory" where
  "snapshot self m =
     (if node_class self = SetNode then
        (case SetNode_create True m of (Inl e, m1) \<Rightarrow> (Inl e, m1) | (Inr _, m1) \<Rightarrow> (Inr (), m1))
      else
        case TABLE (node_class self) of
          None \<Rightarrow> (Inl AttributeError, m)
        | Some tbl \<Rightarrow>
            (case read_one m tbl (TABLE_COLUMNS (node_class self)) (memid self) of
               None \<Rightarrow> (Inl TypeError, m)
             | Some data \<Rightarrow>
                 (let (archive_memid, m1) = new (node_class self) True m;
                      new_data = data[0 := VText archive_memid];
                      archive_table = (case ARCHIVE_TABLE (node_class self) of
                                         Some a \<Rightarrow> a | None \<Rightarrow> tbl);
                      m2 = sql_insert archive_table
                             (make_row (TABLE_COLUMNS (node_class self)) new_data
                                (table_defaults archive_table)) m1
                  in link_archive_to_mem (memid self) archive_memid m2)))"

subsection \<open>A new store\<close>

definition node_registry :: "node_class list \<Rightarrow> string option \<rightharpoonup> node_class" where
  "node_registry nodelist = fold (\<lambda>n d. d(NODE_TYPE n \<mapsto> n)) nodelist Map.empty"

text \<open>
  \<^verbatim>\<open>AgentMemory.__init__\<close>: empty tables, the registry, and the agent's own entity with
  its two tags.
\<close>

definition AgentMemory :: "node_class list \<Rightarrow> int \<Rightarrow> (nat \<Rightarrow> string) \<Rightarrow> memory" where
  "AgentMemory nodelist agent_time src =
     (let m0 = \<lparr>time = agent_time, uuid_source = src, uuid_count = 0, db = (\<lambda>_. []),
                nodes = node_registry nodelist, self_memid = replicate 32 CHR ''0''\<rparr>;
          m1 = sql_insert ''Memories''
                 (make_row Memories_columns
                    [VText (self_memid m0), VText ''Self'', VInt 0, VInt 0, VInt (- 1), py_bool False]
                    no_defaults) m0;
          m2 = snd (tag (self_memid m1) ''_agent'' m1)
      in snd (tag (self_memid m2) ''_self'' m2))"

section \<open>The command interpreter (base_agent/dialogue_objects/interpreter.py)\<close>

text \<open>
  A logical form is a nested mapping of strings, mappings and lists.  The interpreter
  carries its speaker, the logical form, its flags and loop data, and the memory; what
  belongs to collaborators outside these sources (the agent, the dialogue stack, the
  sub-interpreters) is the component \<open>world\<close>.
\<close>

datatype lf = LStr string | LDict "(string \<times> lf) list" | LList "lf list"

record 'w interpreter =
  speaker :: string
  action_dict :: "(string \<times> lf) list"
  finished :: bool
  loop_data :: "node option"
  archived_loop_data :: "node option"
  memory :: memory
  world :: 'w

type_synonym response = "string option \<times> lf option"

type_synonym 'w handler =
  "string \<Rightarrow> lf \<Rightarrow> 'w interpreter \<Rightarrow> (exn + response) \<times> 'w interpreter"

definition handle_stop :: "'w handler" where
  "handle_stop spk d st =
     (let st1 = st\<lparr>finished := True\<rparr>;
          st2 = (if loop_data st1 \<noteq> None
                 then st1\<lparr>archived_loop_data := loop_data st1, loop_data := None\<rparr>
                 else st1);
          (paused, m') = task_stack_pause (memory st2);
          st3 = st2\<lparr>memory := m'\<rparr>
      in if paused then (Inr (Some ''Stopping.  What should I do next?'', None), st3)
         else (Inr (Some ''I am not doing anything'', None), st3))"

definition handle_resume :: "'w handler" where
  "handle_resume spk d st =
     (let st1 = st\<lparr>finished := True\<rparr>;
          (resumed, m') = task_stack_resume (memory st1);
          st2 = st1\<lparr>memory := m'\<rparr>
      in if resumed
         then (Inr (Some ''resuming'', None),
               if archived_loop_data st2 \<noteq> None
               then st2\<lparr>loop_data := archived_loop_data st2, archived_loop_data := None\<rparr>
               else st2)
         else (Inr (Some ''nothing to resume'', None), st2))"

definition handle_otheraction :: "'w handler" where
  "handle_otheraction spk d st =
     (Inr (Some ''I don't know how to do that yet'', None), st\<lparr>finished := True\<rparr>)"

text \<open>
  \<^verbatim>\<open>self.action_handlers\<close>.  \<^verbatim>\<open>handle_move\<close> and \<^verbatim>\<open>handle_undo\<close> run task classes,
  sub-interpreters and the dialogue stack, none of which is among the sources: they are
  parameters.
\<close>

definition action_handlers :: "'w handler \<Rightarrow> 'w handler \<Rightarrow> string \<rightharpoonup> 'w handler" where
  "action_handlers handle_move handle_undo =
     [''MOVE'' \<mapsto> handle_move, ''STOP'' \<mapsto> handle_stop, ''RESUME'' \<mapsto> handle_resume,
      ''UNDO'' \<mapsto> handle_undo, ''OTHERACTION'' \<mapsto> handle_otheraction]"

text \<open>\<^verbatim>\<open>action_def["action_type"]\<close> and the lookup of its handler.\<close>

definition handler_of :: "(string \<rightharpoonup> 'w handler) \<Rightarrow> lf \<Rightarrow> exn + 'w handler" where
  "handler_of hs action_def =
     (case action_def of
        LDict d \<Rightarrow>
          (case map_of d ''action_type'' of
             None \<Rightarrow> Inl KeyError
           | Some (LStr action_type) \<Rightarrow>
               (case hs action_type of None \<Rightarrow> Inl KeyError | Some h \<Rightarrow> Inr h)
           | Some _ \<Rightarrow> Inl TypeError)
      | _ \<Rightarrow> Inl TypeError)"

text \<open>The \<^verbatim>\<open>for\<close> loop of \<^verbatim>\<open>step\<close>: each handler's response replaces the last one.\<close>

fun run_actions ::
  "(string \<rightharpoonup> 'w handler) \<Rightarrow> lf list \<Rightarrow> response \<Rightarrow> 'w interpreter \<Rightarrow>
   (exn + response) \<times> 'w interpreter" where
  "run_actions hs [] response st = (Inr response, st)"
| "run_actions hs (action_def # actions) response st =
     (case handler_of hs action_def of
        Inl e \<Rightarrow> (Inl e, st)
      | Inr h \<Rightarrow>
          (case h (speaker st) action_def st of
             (Inl e, st') \<Rightarrow> (Inl e, st')
           | (Inr response', st') \<Rightarrow> run_actions hs actions response' st'))"

text \<open>
  The body of the \<^verbatim>\<open>try\<close>.  \<^verbatim>\<open>actions.reverse()\<close> reverses the list held by the logical
  form itself.
\<close>

definition step_body ::
  "(string \<rightharpoonup> 'w handler) \<Rightarrow> 'w interpreter \<Rightarrow> (exn + response) \<times> 'w interpreter" where
  "step_body hs st =
     (case (case map_of (action_dict st) ''action'' of
              Some a \<Rightarrow> Inr ([a], st)
            | None \<Rightarrow>
                (case map_of (action_dict st) ''action_sequence'' of
                   Some (LList as) \<Rightarrow>
                     Inr (rev as,
                          st\<lparr>action_dict :=
                               AList.update ''action_sequence'' (LList (rev as)) (action_dict st)\<rparr>)
                 | Some _ \<Rightarrow> Inl AttributeError
                 | None \<Rightarrow> Inr ([], st))) of
        Inl e \<Rightarrow> (Inl e, st)
      | Inr (actions, st1) \<Rightarrow>
          if length actions = 0
          then (Inl (ErrorWithResponse
                       ''I thought you wanted me to do something, but now I don't know what''), st1)
          else run_actions hs actions (None, None) st1)"

definition step ::
  "(string \<rightharpoonup> 'w handler) \<Rightarrow> 'w interpreter \<Rightarrow> (exn + response) \<times> 'w interpreter" where
  "step hs st =
     (case map_of (action_dict st) ''dialogue_type'' of
        None \<Rightarrow> (Inl KeyError, st)
      | Some dt \<Rightarrow>
          if dt \<noteq> LStr ''HUMAN_GIVE_COMMAND'' then (Inl AssertionError, st)
          else (case step_body hs st of
                  (Inl NextDialogueStep, st') \<Rightarrow> (Inr (None, None), st')
                | (Inl (ErrorWithResponse chat), st') \<Rightarrow>
                    (Inr (Some chat, None), st'\<lparr>finished := True\<rparr>)
                | r \<Rightarrow> r))"

section \<open>Notions for the statements\<close>

text \<open>
  The row that \<^verbatim>\<open>TaskNode.create\<close> writes for a task, an identifier and a time; a push as
  its callers make it, after advancing the clock; and the node that \<^verbatim>\<open>TaskNode.__init__\<close>
  builds for a task with a given id, creation and finish time.
\<close>

definition task_row :: "string \<Rightarrow> task \<Rightarrow> int \<Rightarrow> row" where
  "task_row u tk t =
     make_row [''uuid'', ''action_name'', ''pickled'', ''created_at'']
       [VText u, VText (task_class tk), VPickle (tk\<lparr>task_memid := Some u\<rparr>), VInt t] Tasks_defaults"

definition push_at :: "int \<Rightarrow> task \<Rightarrow> memory \<Rightarrow> memory" where
  "push_at ticks tk m = snd (task_stack_push tk None False (add_tick ticks m))"


text \<open>
  Modelled from the spec: \<^verbatim>\<open>uuid\<close> is the key of the Memories table (an entity's id is
  globally unique; the schema that declares the key is not among the sources), and it
  holds text, as every writer of the table stores it.
\<close>

definition Memories_key :: "memory \<Rightarrow> bool" where
  "Memories_key m =
     (distinct (map (\<lambda>r. r ''uuid'') (db m ''Memories'')) \<and>
      (\<forall>r \<in> set (db m ''Memories''). case r ''uuid'' of VText _ \<Rightarrow> True | _ \<Rightarrow> False))"

text \<open>
  The rows of NamedAbstractions that carry a given text; and the lookup that an accepted
  \<^verbatim>\<open>add_triple\<close> makes for its object and for its subject: none when a memid is given.
\<close>

definition named_abstractions :: "memory \<Rightarrow> string \<Rightarrow> row list" where
  "named_abstractions m name =
     filter (\<lambda>r. sql_eq (r ''name'') (VText name)) (db m ''NamedAbstractions'')"

definition resolve :: "string \<Rightarrow> string \<Rightarrow> memory \<Rightarrow> val \<times> memory" where
  "resolve u text m =
     (if u = [] then NamedAbstractionNode_create text False m else (VText u, m))"

text \<open>
  What lookups do to a text \<open>x\<close> that had no row in \<open>m\<close>: the Memories table grows,
  \<open>x\<close> gets at most one row, and if it has one, its entity is among the new ones.
\<close>

definition grown :: "memory \<Rightarrow> string \<Rightarrow> memory \<Rightarrow> bool" where
  "grown m x m' =
     (length (named_abstractions m' x) \<le> 1 \<and>
      (\<exists>new. db m' ''Memories'' = db m ''Memories'' @ new \<and>
         (named_abstractions m' x \<noteq> [] \<longrightarrow>
            (\<exists>M \<in> set new. M ''uuid'' = hd (named_abstractions m' x) ''uuid'' \<and>
                             M ''node_type'' = VText ''NamedAbstraction''))))"

text \<open>The entities that looking up predicate texts adds: NamedAbstractions with ids in \<open>ids\<close>.\<close>

definition abstraction_rows :: "string set \<Rightarrow> row list \<Rightarrow> bool" where
  "abstraction_rows ids rs =
     (\<forall>M \<in> set rs. M ''node_type'' = VText ''NamedAbstraction'' \<and> M ''is_snapshot'' = VInt 0 \<and>
        M ''uuid'' \<in> VText ` ids)"

text \<open>
  A handler that does nothing but append the action it is called with to the interpreter's
  \<open>world\<close>, which is then the list of the calls made so far.
\<close>

definition recording_handler :: "lf list handler" where
  "recording_handler spk d st = (Inr (None, None), st\<lparr>world := world st @ [d]\<rparr>)"



section \<open>Example stores and commands\<close>

text \<open>
  A source of identifiers for the examples; a store as \<^verbatim>\<open>AgentMemory()\<close> leaves it; the
  same store after one push, and after that task was popped.
\<close>

definition example_source :: "nat \<Rightarrow> string" where
  "example_source n =
     (if n < 12
      then [''u00'', ''u01'', ''u02'', ''u03'', ''u04'', ''u05'', ''u06'', ''u07'', ''u08'', ''u09'',
            ''u10'', ''u11''] ! n
      else replicate n CHR ''u'')"

definition fresh_store :: memory where
  "fresh_store = AgentMemory NODELIST 0 example_source"

text \<open>A store built with the node list of the examples in the docstrings of the node classes.\<close>

definition docstring_store :: memory where
  "docstring_store = AgentMemory [TaskNode, ChatNode] 0 example_source"

definition example_task :: task where
  "example_task = \<lparr>task_class = ''Move'', task_state = ''target'', task_memid = None\<rparr>"

definition one_task_store :: memory where
  "one_task_store = snd (task_stack_push example_task None False (add_tick 1 fresh_store))"

definition finished_task_store :: memory where
  "finished_task_store = snd (task_stack_pop one_task_store)"

text \<open>
  The store after a chat, with a node for the chat, and after that chat was snapshotted;
  the store in which \<^verbatim>\<open>SetNode.create\<close> was called once, with a node for the entity it
  left behind.
\<close>

definition chat_store :: memory where
  "chat_store = snd (add_chat ''speaker'' ''hello'' fresh_store)"

definition chat_node :: node where
  "chat_node = \<lparr>node_class = ChatNode, memid = ''u05'', loaded = None\<rparr>"

definition snapshot_store :: memory where
  "snapshot_store = snd (snapshot chat_node chat_store)"



text \<open>An interpreter for a logical form and a store, and logical forms to give it.\<close>

definition Interpreter :: "string \<Rightarrow> (string \<times> lf) list \<Rightarrow> memory \<Rightarrow> lf list interpreter" where
  "Interpreter spk d m =
     \<lparr>speaker = spk, action_dict = d, finished = False, loop_data = None,
      archived_loop_data = None, memory = m, world = []\<rparr>"

definition command :: "lf list \<Rightarrow> (string \<times> lf) list" where
  "command actions =
     [(''dialogue_type'', LStr ''HUMAN_GIVE_COMMAND''), (''action_sequence'', LList actions)]"

definition action :: "string \<Rightarrow> lf" where
  "action action_type = LDict [(''action_type'', LStr action_type)]"


section \<open>Proofs\<close>

subsection \<open>Values and rows\<close>

lemma sort_le_int [simp]: "sort_le (VInt a) (VInt b) = (a \<le> b)"
  by (simp add: sort_le_def)

lemma sql_lt_int [simp]: "sql_lt (VInt a) (VInt b) = (a < b)"
  by (simp add: sql_lt_def)

lemma sql_ge_int [simp]: "sql_ge (VInt a) (VInt b) = (a \<ge> b)"
  by (simp add: sql_ge_def)

lemma sql_eq_int [simp]: "sql_eq (VInt a) (VInt b) = (a = b)"
  by (auto simp add: sql_eq_def)

lemma sql_eq_text [simp]: "sql_eq (VText a) (VText b) = (a = b)"
  by (auto simp add: sql_eq_def)

lemma sql_eq_null [simp]: "sql_eq VNull b = False" "sql_eq a VNull = False"
  by (simp_all add: sql_eq_def)

lemma sql_eq_text_int [simp]: "sql_eq (VText a) (VInt i) = False" "sql_eq (VInt i) (VText a) = False"
  by (simp_all add: sql_eq_def)

lemma sql_eq_text_iff: "sql_eq v (VText a) = (v = VText a)"
  by (cases v) (auto simp add: sql_eq_def)

lemma task_row_simps [simp]:
  "task_row u tk t ''uuid'' = VText u"
  "task_row u tk t ''action_name'' = VText (task_class tk)"
  "task_row u tk t ''pickled'' = VPickle (tk\<lparr>task_memid := Some u\<rparr>)"
  "task_row u tk t ''created_at'' = VInt t"
  "task_row u tk t ''paused'' = VInt 0"
  "task_row u tk t ''finished_at'' = VInt (- 1)"
  by (simp_all add: task_row_def make_row_def Tasks_defaults_def)

subsection \<open>Frames of the database operations\<close>

lemma sql_insert_simps [simp]:
  "db (sql_insert tbl r m) t = (if t = tbl then db m t @ [r] else db m t)"
  "time (sql_insert tbl r m) = time m"
  "uuid_source (sql_insert tbl r m) = uuid_source m"
  "uuid_count (sql_insert tbl r m) = uuid_count m"
  "nodes (sql_insert tbl r m) = nodes m"
  "self_memid (sql_insert tbl r m) = self_memid m"
  by (simp_all add: sql_insert_def)

lemma sql_update_simps [simp]:
  "db (snd (sql_update tbl c v wh m)) t =
     (if t = tbl then map (\<lambda>r. if wh r then r(c := v) else r) (db m t) else db m t)"
  "fst (sql_update tbl c v wh m) = length (filter wh (db m tbl))"
  "time (snd (sql_update tbl c v wh m)) = time m"
  "uuid_source (snd (sql_update tbl c v wh m)) = uuid_source m"
  "uuid_count (snd (sql_update tbl c v wh m)) = uuid_count m"
  "nodes (snd (sql_update tbl c v wh m)) = nodes m"
  "self_memid (snd (sql_update tbl c v wh m)) = self_memid m"
  by (simp_all add: sql_update_def)

lemma new_simps [simp]:
  "fst (new cls s m) = uuid_source m (uuid_count m)"
  "db (snd (new cls s m)) t =
     (if t = ''Memories''
      then db m t @ [make_row Memories_columns
                       [VText (uuid_source m (uuid_count m)), py_str (NODE_TYPE cls), VInt (time m),
                        VInt (time m), VInt (time m), py_bool s] no_defaults]
      else db m t)"
  "time (snd (new cls s m)) = time m"
  "uuid_source (snd (new cls s m)) = uuid_source m"
  "uuid_count (snd (new cls s m)) = Suc (uuid_count m)"
  "nodes (snd (new cls s m)) = nodes m"
  "self_memid (snd (new cls s m)) = self_memid m"
  by (simp_all add: new_def uuid4_def get_time_def Let_def)

lemma add_tick_simps [simp]:
  "db (add_tick k m) = db m"
  "time (add_tick k m) = time m + k"
  "uuid_source (add_tick k m) = uuid_source m"
  "uuid_count (add_tick k m) = uuid_count m"
  "nodes (add_tick k m) = nodes m"
  "self_memid (add_tick k m) = self_memid m"
  by (simp_all add: add_tick_def)

lemma TaskNode_create_simps [simp]:
  "fst (TaskNode_create tk m) = uuid_source m (uuid_count m)"
  "db (snd (TaskNode_create tk m)) t =
     (if t = ''Tasks'' then db m t @ [task_row (uuid_source m (uuid_count m)) tk (time m)]
      else db (snd (new TaskNode False m)) t)"
  "time (snd (TaskNode_create tk m)) = time m"
  "uuid_source (snd (TaskNode_create tk m)) = uuid_source m"
  "uuid_count (snd (TaskNode_create tk m)) = Suc (uuid_count m)"
  "nodes (snd (TaskNode_create tk m)) = nodes m"
  "self_memid (snd (TaskNode_create tk m)) = self_memid m"
  by (simp_all add: TaskNode_create_def task_row_def get_time_def split_beta Let_def)

lemma push_plain:
  "task_stack_push tk None False m =
     (init TaskNode (snd (TaskNode_create tk m)) (uuid_source m (uuid_count m)),
      snd (TaskNode_create tk m))"
  by (simp add: task_stack_push_def str_truthy_def split_beta Let_def del: init.simps)

subsection \<open>The example stores\<close>

lemma fresh_store_simps:
  "time fresh_store = 0" "uuid_count fresh_store = 5" "uuid_source fresh_store = example_source"
  "db fresh_store ''Tasks'' = []"
  by (simp_all add: fresh_store_def AgentMemory_def tag_def add_triple_def NamedAbstractionNode_create_def
        fetchone_def project_def Let_def uuid4_def new_def get_time_def make_row_def
        Memories_columns_def Triples_columns_def no_defaults_def py_bool_def py_str_def)

lemma one_task_store_tasks:
  "db one_task_store ''Tasks'' = [task_row ''u05'' example_task 1]"
  by (simp add: one_task_store_def push_plain fresh_store_simps example_source_def)


lemma finished_task_store_tasks:
  "db finished_task_store ''Tasks'' = [(task_row ''u05'' example_task 1)(''finished_at'' := VInt 1)]"
  by (simp add: finished_task_store_def task_stack_pop_def task_stack_peek_def one_task_store_tasks
        active_def order_by_desc_def project_def fetchone_def read_one_def get_time_def
        one_task_store_def push_plain fresh_store_simps example_source_def)

subsection \<open>The task ledger\<close>

text \<open>
  C7.  When no task is active, \<^verbatim>\<open>task_stack_pop\<close> raises \<^verbatim>\<open>ValueError\<close>, which it hands to
  its caller with the store as it was, and \<^verbatim>\<open>task_stack_peek\<close> on the same store returns
  \<^verbatim>\<open>None\<close> without raising.
\<close>

theorem pop_empty_raises_peek_absent:
  assumes "filter active (db m ''Tasks'') = []"
  shows "task_stack_pop m = (Inl ValueError, m) \<and> task_stack_peek m = Inr None"
proof -
  have "task_stack_peek m = Inr None"
    using assms by (simp add: task_stack_peek_def order_by_desc_def project_def fetchone_def)
  then show ?thesis by (simp add: task_stack_pop_def)
qed

theorem pop_empty_raises_peek_absent_witness:
  "filter active (db finished_task_store ''Tasks'') = [] \<and>
   task_stack_pop finished_task_store = (Inl ValueError, finished_task_store) \<and>
   task_stack_peek finished_task_store = Inr None"
proof -
  have h: "filter active (db finished_task_store ''Tasks'') = []"
    by (simp add: finished_task_store_tasks active_def)
  show ?thesis using h pop_empty_raises_peek_absent [OF h] by simp
qed

text \<open>
  C3.  On the store with one active task \<^verbatim>\<open>task_stack_pause\<close> returns \<^verbatim>\<open>True\<close> the first
  time and \<^verbatim>\<open>True\<close> again the second time, and after them \<^verbatim>\<open>task_stack_resume\<close> returns
  \<^verbatim>\<open>True\<close> twice in a row: each reports that its UPDATE selected a row, not that a
  paused flag changed.
\<close>

theorem pause_twice_resume_twice_all_true:
  "fst (task_stack_pause one_task_store) = True \<and>
   fst (task_stack_pause (snd (task_stack_pause one_task_store))) = True \<and>
   fst (task_stack_resume (snd (task_stack_pause (snd (task_stack_pause one_task_store))))) = True \<and>
   fst (task_stack_resume (snd (task_stack_resume
          (snd (task_stack_pause (snd (task_stack_pause one_task_store))))))) = True"
  by (simp add: task_stack_pause_def task_stack_resume_def split_beta one_task_store_tasks)

text \<open>
  C2.  On the store whose only task is finished \<^verbatim>\<open>task_stack_peek\<close> finds nothing, yet
  \<^verbatim>\<open>task_stack_find_lowest_instance("Move")\<close> returns that finished task; and on the
  store without tasks it raises \<^verbatim>\<open>TypeError\<close> where an absent value was to be returned.
\<close>

theorem find_lowest_returns_finished_and_raises:
  "task_stack_peek finished_task_store = Inr None \<and>
   task_stack_find_lowest_instance (Name ''Move'') finished_task_store =
     Inr (Some \<lparr>node_class = TaskNode, memid = ''u05'',
                loaded = Some [VPickle (example_task\<lparr>task_memid := Some ''u05''\<rparr>), VInt 1, VInt 1,
                               VText ''Move'']\<rparr>) \<and>
   task_stack_find_lowest_instance (Name ''Move'') fresh_store = Inl TypeError"
  by (simp add: task_stack_peek_def task_stack_find_lowest_instance_def finished_task_store_tasks
        fresh_store_simps active_def order_by_desc_def order_by_def project_def fetchone_def
        read_one_def example_task_def)

subsection \<open>The interpreter\<close>

text \<open>
  C6.  A HUMAN_GIVE_COMMAND without \<^verbatim>\<open>action\<close> and without \<^verbatim>\<open>action_sequence\<close>, or with
  an empty sequence, ends the turn: \<^verbatim>\<open>step\<close> returns the fixed, non-empty response, sets
  \<^verbatim>\<open>finished\<close>, and changes nothing else, so the memory (and with it the task ledger) is
  the one it started with, whatever the handlers are.
\<close>

theorem step_empty_command:
  assumes "map_of (action_dict st) ''dialogue_type'' = Some (LStr ''HUMAN_GIVE_COMMAND'')"
    and "map_of (action_dict st) ''action'' = None"
    and "map_of (action_dict st) ''action_sequence'' = None \<or>
         map_of (action_dict st) ''action_sequence'' = Some (LList [])"
  shows "step hs st =
           (Inr (Some ''I thought you wanted me to do something, but now I don't know what'', None),
            st\<lparr>finished := True\<rparr>) \<and>
         ''I thought you wanted me to do something, but now I don't know what'' \<noteq> [] \<and>
         finished (snd (step hs st)) \<and>
         memory (snd (step hs st)) = memory st \<and>
         db (memory (snd (step hs st))) ''Tasks'' = db (memory st) ''Tasks''"
proof -
  have "step_body hs st =
          (Inl (ErrorWithResponse
                  ''I thought you wanted me to do something, but now I don't know what''), st)"
    using assms(2,3) by (auto simp add: step_body_def update_triv)
  then have "step hs st =
           (Inr (Some ''I thought you wanted me to do something, but now I don't know what'', None),
            st\<lparr>finished := True\<rparr>)"
    using assms(1) by (simp add: step_def)
  then show ?thesis by simp
qed

theorem step_empty_command_witness:
  "map_of (action_dict (Interpreter ''user'' (command []) one_task_store)) ''dialogue_type'' =
     Some (LStr ''HUMAN_GIVE_COMMAND'') \<and>
   map_of (action_dict (Interpreter ''user'' (command []) one_task_store)) ''action'' = None \<and>
   map_of (action_dict (Interpreter ''user'' (command []) one_task_store)) ''action_sequence'' =
     Some (LList []) \<and>
   step (action_handlers recording_handler recording_handler)
     (Interpreter ''user'' (command []) one_task_store) =
     (Inr (Some ''I thought you wanted me to do something, but now I don't know what'', None),
      (Interpreter ''user'' (command []) one_task_store)\<lparr>finished := True\<rparr>)"
proof -
  let ?st = "Interpreter ''user'' (command []) one_task_store"
  have h1: "map_of (action_dict ?st) ''dialogue_type'' = Some (LStr ''HUMAN_GIVE_COMMAND'')"
    by (simp add: Interpreter_def command_def)
  have h2: "map_of (action_dict ?st) ''action'' = None"
    by (simp add: Interpreter_def command_def)
  have h3: "map_of (action_dict ?st) ''action_sequence'' = None \<or>
            map_of (action_dict ?st) ''action_sequence'' = Some (LList [])"
    by (simp add: Interpreter_def command_def)
  show ?thesis
    using step_empty_command [OF h1 h2 h3, of "action_handlers recording_handler recording_handler"]
    by (simp add: Interpreter_def command_def)
qed









subsection \<open>Chats\<close>

lemma node_registry_Time: "node_registry NODELIST (Some ''Time'') = Some TimeNode"
  by (simp add: node_registry_def NODELIST_def)

lemma ChatNode_create_simps [simp]:
  "fst (ChatNode_create spk chat m) = uuid_source m (uuid_count m)"
  "db (snd (ChatNode_create spk chat m)) t =
     (if t = ''Chats''
      then db m t @ [make_row [''uuid'', ''speaker'', ''chat'', ''time'']
                       [VText (uuid_source m (uuid_count m)), VText spk, VText chat, VInt (time m)]
                       no_defaults]
      else db (snd (new ChatNode False m)) t)"
  "time (snd (ChatNode_create spk chat m)) = time m"
  "uuid_source (snd (ChatNode_create spk chat m)) = uuid_source m"
  "uuid_count (snd (ChatNode_create spk chat m)) = Suc (uuid_count m)"
  "nodes (snd (ChatNode_create spk chat m)) = nodes m"
  "self_memid (snd (ChatNode_create spk chat m)) = self_memid m"
  by (simp_all add: ChatNode_create_def get_time_def split_beta Let_def)

lemma memories_row_simps [simp]:
  "make_row Memories_columns [a, b, c, d, e, f] dflt ''uuid'' = a"
  "make_row Memories_columns [a, b, c, d, e, f] dflt ''node_type'' = b"
  "make_row Memories_columns [a, b, c, d, e, f] dflt ''create_time'' = c"
  "make_row Memories_columns [a, b, c, d, e, f] dflt ''updated_time'' = d"
  "make_row Memories_columns [a, b, c, d, e, f] dflt ''attended_time'' = e"
  "make_row Memories_columns [a, b, c, d, e, f] dflt ''is_snapshot'' = f"
  by (simp_all add: make_row_def Memories_columns_def)

lemma filter_uuid_fresh:
  assumes "\<forall>r \<in> set rs. r ''uuid'' \<noteq> VText u"
  shows "filter (\<lambda>r. sql_eq (r ''uuid'') (VText u)) rs = []"
  using assms by (simp add: sql_eq_text_iff filter_empty_conv)

text \<open>
  C4, as the code has it.  \<^verbatim>\<open>add_chat\<close> appends to the Memories table a row whose
  \<^verbatim>\<open>node_type\<close> is "Time", the \<^verbatim>\<open>NODE_TYPE\<close> of \<^verbatim>\<open>ChatNode\<close>.  With an identifier that is
  new to the table, \<^verbatim>\<open>get_node_from_memid\<close> then returns "Time" for the chat, and
  \<^verbatim>\<open>get_mem_by_id\<close> without a node type calls the constructor of the class that the
  store's registry holds under "Time" (of \<^verbatim>\<open>MemoryNode\<close> if it holds none).  The registry
  of \<^verbatim>\<open>NODELIST\<close> holds \<^verbatim>\<open>TimeNode\<close> there, which is registered after \<^verbatim>\<open>ChatNode\<close>; and
  in every store whose registry does, \<^verbatim>\<open>get_mem_by_id\<close> builds a \<^verbatim>\<open>TimeNode\<close>, not a
  \<^verbatim>\<open>ChatNode\<close>.
\<close>

theorem chat_is_recorded_as_time:
  assumes "\<forall>r \<in> set (db m ''Memories''). r ''uuid'' \<noteq> VText (uuid_source m (uuid_count m))"
  shows "(\<exists>row. db (snd (add_chat spk chat m)) ''Memories'' = db m ''Memories'' @ [row] \<and>
                row ''uuid'' = VText (fst (add_chat spk chat m)) \<and>
                row ''node_type'' = VText ''Time'') \<and>
         get_node_from_memid (snd (add_chat spk chat m)) (fst (add_chat spk chat m)) =
           Inr (VText ''Time'') \<and>
         get_mem_by_id (snd (add_chat spk chat m)) (fst (add_chat spk chat m)) None =
           init (case nodes m (Some ''Time'') of None \<Rightarrow> MemoryNode | Some cls \<Rightarrow> cls)
             (snd (add_chat spk chat m)) (fst (add_chat spk chat m)) \<and>
         node_registry NODELIST (Some ''Time'') = Some TimeNode \<and>
         (nodes m (Some ''Time'') = Some TimeNode \<longrightarrow>
            get_mem_by_id (snd (add_chat spk chat m)) (fst (add_chat spk chat m)) None =
              init TimeNode (snd (add_chat spk chat m)) (fst (add_chat spk chat m)) \<and>
            (\<exists>t. init TimeNode (snd (add_chat spk chat m)) (fst (add_chat spk chat m)) =
                    Inr \<lparr>node_class = TimeNode, memid = fst (add_chat spk chat m), loaded = t\<rparr>) \<and>
            init TimeNode (snd (add_chat spk chat m)) (fst (add_chat spk chat m)) \<noteq>
              init ChatNode (snd (add_chat spk chat m)) (fst (add_chat spk chat m)))"
proof -
  let ?u = "uuid_source m (uuid_count m)"
  let ?m' = "snd (add_chat spk chat m)"
  have u: "fst (add_chat spk chat m) = ?u"
    by (simp add: add_chat_def)
  have mem: "db ?m' ''Memories'' =
      db m ''Memories'' @ [make_row Memories_columns
         [VText ?u, py_str (NODE_TYPE ChatNode), VInt (time m), VInt (time m), VInt (time m),
          py_bool False] no_defaults]"
    by (simp add: add_chat_def)
  have chats: "read_one ?m' ''Chats'' [''speaker'', ''chat'', ''time''] ?u \<noteq> None"
    by (simp add: add_chat_def read_one_def project_def fetchone_def make_row_def
          split: list.splits)
  have nt: "get_node_from_memid ?m' ?u = Inr (VText ''Time'')"
    using assms
    by (simp add: get_node_from_memid_def read_one_def mem filter_uuid_fresh project_def
          fetchone_def py_str_def)
  have reg: "nodes ?m' = nodes m"
    by (simp add: add_chat_def)
  have get: "get_mem_by_id ?m' ?u None =
      init (case nodes m (Some ''Time'') of None \<Rightarrow> MemoryNode | Some cls \<Rightarrow> cls) ?m' ?u"
    by (simp add: get_mem_by_id_def nt construct_def reg del: init.simps)
  have ne: "init TimeNode ?m' ?u \<noteq> init ChatNode ?m' ?u"
    using chats by (auto split: option.splits)
  show ?thesis
    unfolding u using mem nt get ne by (simp add: py_str_def node_registry_Time)
qed


lemma fresh_store_more:
  "nodes fresh_store = node_registry NODELIST"
  "db fresh_store ''Times'' = []"
  "db fresh_store ''Chats'' = []"
  "map (\<lambda>r. r ''uuid'') (db fresh_store ''Memories'') =
     [VText (replicate 32 CHR ''0''), VText ''u01'', VText ''u02'', VText ''u04'']"
  by (simp_all add: fresh_store_def AgentMemory_def tag_def add_triple_def NamedAbstractionNode_create_def
        fetchone_def project_def Let_def uuid4_def new_def get_time_def make_row_def
        Memories_columns_def Triples_columns_def no_defaults_def py_bool_def py_str_def
        example_source_def)

lemma zeros_not_short:
  "length u < 32 \<Longrightarrow> replicate 32 CHR ''0'' \<noteq> u"
  "length u < 32 \<Longrightarrow> u \<noteq> replicate 32 CHR ''0''"
  by auto

lemma fresh_from_map:
  "v \<notin> set (map (\<lambda>r. r ''uuid'') rs) \<Longrightarrow> \<forall>r \<in> set rs. r ''uuid'' \<noteq> v"
  by (induction rs) auto

theorem chat_is_recorded_as_time_witness:
  "nodes fresh_store (Some ''Time'') = Some TimeNode \<and>
   VText ''u05'' \<notin> set (map (\<lambda>r. r ''uuid'') (db fresh_store ''Memories'')) \<and>
   fst (add_chat ''speaker'' ''hello'' fresh_store) = ''u05'' \<and>
   get_node_from_memid (snd (add_chat ''speaker'' ''hello'' fresh_store)) ''u05'' = Inr (VText ''Time'') \<and>
   get_mem_by_id (snd (add_chat ''speaker'' ''hello'' fresh_store)) ''u05'' None =
     Inr \<lparr>node_class = TimeNode, memid = ''u05'', loaded = None\<rparr>"
proof -
  let ?m' = "snd (add_chat ''speaker'' ''hello'' fresh_store)"
  have src: "uuid_source fresh_store (uuid_count fresh_store) = ''u05''"
    by (simp add: fresh_store_simps example_source_def)
  have h1: "nodes fresh_store (Some ''Time'') = Some TimeNode"
    by (simp add: fresh_store_more node_registry_Time)
  have h0: "VText ''u05'' \<notin> set (map (\<lambda>r. r ''uuid'') (db fresh_store ''Memories''))"
    unfolding fresh_store_more by (simp add: zeros_not_short)
  then have h2': "\<forall>r \<in> set (db fresh_store ''Memories''). r ''uuid'' \<noteq> VText ''u05''"
    by (rule fresh_from_map)
  then have h2: "\<forall>r \<in> set (db fresh_store ''Memories'').
                   r ''uuid'' \<noteq> VText (uuid_source fresh_store (uuid_count fresh_store))"
    by (simp only: src)
  have u: "fst (add_chat ''speaker'' ''hello'' fresh_store) = ''u05''"
    by (simp add: add_chat_def src)
  have times: "read_one ?m' ''Times'' [''time''] ''u05'' = None"
    by (simp add: read_one_def add_chat_def fresh_store_more project_def fetchone_def)
  note th = chat_is_recorded_as_time [OF h2, of "''speaker''" "''hello''", unfolded u]
  from th have a: "get_node_from_memid ?m' ''u05'' = Inr (VText ''Time'')"
    by (rule conjunct1 [OF conjunct2])
  from th h1 have "get_mem_by_id ?m' ''u05'' None = init TimeNode ?m' ''u05''"
    by blast
  then have b: "get_mem_by_id ?m' ''u05'' None =
      Inr \<lparr>node_class = TimeNode, memid = ''u05'', loaded = None\<rparr>"
    by (simp add: times)
  show ?thesis using h1 h0 u a b by blast
qed

lemma docstring_store_simps:
  "nodes docstring_store (Some ''Time'') = Some ChatNode"
  "uuid_source docstring_store (uuid_count docstring_store) = ''u05''"
  "time docstring_store = 0"
  "db docstring_store ''Chats'' = []"
  "map (\<lambda>r. r ''uuid'') (db docstring_store ''Memories'') =
     [VText (replicate 32 CHR ''0''), VText ''u01'', VText ''u02'', VText ''u04'']"
  by (simp_all add: docstring_store_def AgentMemory_def tag_def add_triple_def
        NamedAbstractionNode_create_def node_registry_def
        fetchone_def project_def Let_def uuid4_def new_def get_time_def make_row_def
        Memories_columns_def Triples_columns_def no_defaults_def py_bool_def py_str_def
        example_source_def)

text \<open>
  C4, as the spec has it, fails.  In a store built with the node list
  \<^verbatim>\<open>[TaskNode, ChatNode]\<close> the registry holds \<^verbatim>\<open>ChatNode\<close> under "Time": the chat is still
  recorded as "Time", but \<^verbatim>\<open>get_mem_by_id\<close> without a node type builds a \<^verbatim>\<open>ChatNode\<close>
  with the chat's speaker, text and time.
\<close>

theorem chat_dispatch_counterexample:
  "fst (add_chat ''speaker'' ''hello'' docstring_store) = ''u05'' \<and>
   get_node_from_memid (snd (add_chat ''speaker'' ''hello'' docstring_store)) ''u05'' =
     Inr (VText ''Time'') \<and>
   get_mem_by_id (snd (add_chat ''speaker'' ''hello'' docstring_store)) ''u05'' None =
     Inr \<lparr>node_class = ChatNode, memid = ''u05'',
          loaded = Some [VText ''speaker'', VText ''hello'', VInt 0]\<rparr> \<and>
   get_mem_by_id (snd (add_chat ''speaker'' ''hello'' docstring_store)) ''u05'' None \<noteq>
     init TimeNode (snd (add_chat ''speaker'' ''hello'' docstring_store)) ''u05''"
proof -
  let ?m' = "snd (add_chat ''speaker'' ''hello'' docstring_store)"
  have u: "fst (add_chat ''speaker'' ''hello'' docstring_store) = ''u05''"
    by (simp add: add_chat_def docstring_store_simps)
  have "VText ''u05'' \<notin> set (map (\<lambda>r. r ''uuid'') (db docstring_store ''Memories''))"
    unfolding docstring_store_simps by (simp add: zeros_not_short)
  then have fresh: "\<forall>r \<in> set (db docstring_store ''Memories''). r ''uuid'' \<noteq> VText ''u05''"
    by (rule fresh_from_map)
  have nt: "get_node_from_memid ?m' ''u05'' = Inr (VText ''Time'')"
    using fresh
    by (simp add: get_node_from_memid_def read_one_def add_chat_def docstring_store_simps
          filter_uuid_fresh project_def fetchone_def py_str_def)
  have chat: "init ChatNode ?m' ''u05'' =
      Inr \<lparr>node_class = ChatNode, memid = ''u05'',
           loaded = Some [VText ''speaker'', VText ''hello'', VInt 0]\<rparr>"
    by (simp add: read_one_def add_chat_def docstring_store_simps project_def fetchone_def
          make_row_def)
  have reg: "nodes ?m' (Some ''Time'') = Some ChatNode"
    by (simp add: add_chat_def docstring_store_simps)
  have get: "get_mem_by_id ?m' ''u05'' None = init ChatNode ?m' ''u05''"
    by (simp add: get_mem_by_id_def nt construct_def reg del: init.simps)
  from u nt get chat show ?thesis by simp
qed

subsection \<open>Triples\<close>

lemma make_row_apply:
  assumes "distinct cols" and "length cols = length vals"
  shows "make_row cols vals d x = (case map_of (zip cols vals) x of None \<Rightarrow> d x | Some v \<Rightarrow> v)"
  using assms
proof (induction cols arbitrary: vals d)
  case Nil
  then show ?case by (simp add: make_row_def)
next
  case (Cons c cs)
  then obtain v vs where vals: "vals = v # vs" by (cases vals) auto
  have step: "make_row (c # cs) (v # vs) d = make_row cs vs (d(c := v))"
    by (simp add: make_row_def)
  have ih: "make_row cs vs (d(c := v)) x =
              (case map_of (zip cs vs) x of None \<Rightarrow> (d(c := v)) x | Some w \<Rightarrow> w)"
    using Cons.prems vals by (intro Cons.IH) auto
  have "c \<notin> set (map fst (zip cs vs))"
    using Cons.prems vals by (auto dest: set_zip_leftD)
  then have none: "map_of (zip cs vs) c = None"
    by (simp add: map_of_eq_None_iff)
  show ?case
    unfolding vals step ih using none by (auto split: option.splits)
qed

lemma live_join_subject:
  assumes "t \<in> set (live_join m wh)"
  shows "\<exists>M \<in> set (db m ''Memories'').
           sql_eq (t ''subj'') (M ''uuid'') \<and> sql_eq (M ''is_snapshot'') (VInt 0)"
  using assms by (auto simp add: live_join_def)

lemma Memories_key_text:
  assumes "Memories_key m" and "M \<in> set (db m ''Memories'')"
  shows "\<exists>u. M ''uuid'' = VText u"
proof -
  from assms have "case M ''uuid'' of VText _ \<Rightarrow> True | _ \<Rightarrow> False"
    by (simp add: Memories_key_def)
  then show ?thesis by (cases "M ''uuid''") simp_all
qed

lemma Memories_key_unique:
  assumes "Memories_key m" and "M \<in> set (db m ''Memories'')" and "M' \<in> set (db m ''Memories'')"
    and "sql_eq (M' ''uuid'') (M ''uuid'')"
  shows "M' = M"
proof -
  from Memories_key_text [OF assms(1,2)] obtain u where u: "M ''uuid'' = VText u" ..
  with assms(4) have "M' ''uuid'' = M ''uuid''"
    by (simp add: sql_eq_text_iff)
  moreover from assms(1) have "inj_on (\<lambda>r. r ''uuid'') (set (db m ''Memories''))"
    by (simp add: Memories_key_def distinct_map)
  ultimately show ?thesis
    using assms(2,3) by (auto dest: inj_onD)
qed

lemma get_triples_subject:
  assumes "get_triples subj obj subj_text pred_text obj_text ret m = Inr res"
    and "(s, p, ob) \<in> set res"
  shows "\<exists>wh. \<exists>t \<in> set (live_join m wh). s = t ''subj''"
  using assms
  by (fastforce simp add: get_triples_def project_def Let_def split: if_splits)

text \<open>
  C9.  In a store where \<^verbatim>\<open>uuid\<close> is the key of Memories, whatever \<^verbatim>\<open>get_triples\<close> returns
  for arguments it accepts has as subject an entity whose \<^verbatim>\<open>is_snapshot\<close> is 0, and so has
  every memid that \<^verbatim>\<open>get_memids_by_tag\<close> returns: no relation of a snapshot is returned,
  whatever the Triples table holds.
\<close>

theorem live_queries_exclude_snapshots:
  assumes "Memories_key m"
  shows "(\<forall>res. get_triples subj obj subj_text pred_text obj_text ret m = Inr res \<longrightarrow>
            (\<forall>(s, p, ob) \<in> set res. \<forall>M \<in> set (db m ''Memories'').
               sql_eq (M ''uuid'') s \<longrightarrow> sql_eq (M ''is_snapshot'') (VInt 0))) \<and>
         (\<forall>u \<in> set (get_memids_by_tag tg m). \<forall>M \<in> set (db m ''Memories'').
            sql_eq (M ''uuid'') u \<longrightarrow> sql_eq (M ''is_snapshot'') (VInt 0))"
proof -
  have triples: "\<forall>M \<in> set (db m ''Memories'').
           sql_eq (M ''uuid'') s \<longrightarrow> sql_eq (M ''is_snapshot'') (VInt 0)"
    if r: "get_triples subj obj subj_text pred_text obj_text ret m = Inr res"
      and x: "(s, p, ob) \<in> set res" for res s p ob
  proof (intro ballI impI)
    fix M' assume M': "M' \<in> set (db m ''Memories'')" and e: "sql_eq (M' ''uuid'') s"
    from get_triples_subject [OF r x]
    obtain wh t where t: "t \<in> set (live_join m wh)" and s: "s = t ''subj''" by blast
    from live_join_subject [OF t]
    obtain M0 where M0: "M0 \<in> set (db m ''Memories'')" "sql_eq (t ''subj'') (M0 ''uuid'')"
      "sql_eq (M0 ''is_snapshot'') (VInt 0)" by blast
    from Memories_key_text [OF assms M0(1)] obtain u where u: "M0 ''uuid'' = VText u" ..
    with M0(2) s have "s = VText u" by (simp add: sql_eq_text_iff)
    with e u have "sql_eq (M' ''uuid'') (M0 ''uuid'')" by simp
    from Memories_key_unique [OF assms M0(1) M' this] M0(3)
    show "sql_eq (M' ''is_snapshot'') (VInt 0)" by simp
  qed
  have tags: "sql_eq (M ''is_snapshot'') (VInt 0)"
    if u: "u \<in> set (get_memids_by_tag tg m)" and M: "M \<in> set (db m ''Memories'')"
      and e: "sql_eq (M ''uuid'') u" for u M
  proof -
    from u obtain M0 where M0: "M0 \<in> set (db m ''Memories'')" "u = M0 ''uuid''"
      "sql_eq (M0 ''is_snapshot'') (VInt 0)"
      by (auto simp add: get_memids_by_tag_def)
    from e M0(2) have "sql_eq (M ''uuid'') (M0 ''uuid'')" by simp
    from Memories_key_unique [OF assms M0(1) M this] M0(3)
    show ?thesis by simp
  qed
  from triples tags show ?thesis by blast
qed


lemmas eval_defs =
  AgentMemory_def tag_def add_triple_def NamedAbstractionNode_create_def fetchone_def project_def
  Let_def uuid4_def new_def get_time_def py_bool_def py_str_def example_source_def
  add_chat_def ChatNode_create_def snapshot_def link_archive_to_mem_def read_one_def
  table_defaults_def make_row_apply Memories_columns_def Triples_columns_def no_defaults_def

lemma fresh_store_tables:
  "db fresh_store ''Memories'' =
     [make_row Memories_columns
        [VText (replicate 32 CHR ''0''), VText ''Self'', VInt 0, VInt 0, VInt (- 1), VInt 0] no_defaults,
      make_row Memories_columns
        [VText ''u01'', VText ''NamedAbstraction'', VInt 0, VInt 0, VInt 0, VInt 0] no_defaults,
      make_row Memories_columns
        [VText ''u02'', VText ''NamedAbstraction'', VInt 0, VInt 0, VInt 0, VInt 0] no_defaults,
      make_row Memories_columns
        [VText ''u04'', VText ''NamedAbstraction'', VInt 0, VInt 0, VInt 0, VInt 0] no_defaults]"
  "db fresh_store ''NamedAbstractions'' =
     [make_row [''uuid'', ''name''] [VText ''u01'', VText ''has_tag''] no_defaults,
      make_row [''uuid'', ''name''] [VText ''u02'', VText ''_agent''] no_defaults,
      make_row [''uuid'', ''name''] [VText ''u04'', VText ''_self''] no_defaults]"
  "db fresh_store ''Triples'' =
     [make_row Triples_columns
        [VText ''u00'', VText (replicate 32 CHR ''0''), VNull, VText ''u01'', VText ''has_tag'',
         VText ''u02'', VText ''_agent'', VReal 1] no_defaults,
      make_row Triples_columns
        [VText ''u03'', VText (replicate 32 CHR ''0''), VNull, VText ''u01'', VText ''has_tag'',
         VText ''u04'', VText ''_self'', VReal 1] no_defaults]"
  by (simp_all add: fresh_store_def eval_defs)


lemma snapshot_store_tables:
  "db snapshot_store ''Memories'' =
     db fresh_store ''Memories'' @
     [make_row Memories_columns
        [VText ''u05'', VText ''Time'', VInt 0, VInt 0, VInt 0, VInt 0] no_defaults,
      make_row Memories_columns
        [VText ''u06'', VText ''Time'', VInt 0, VInt 0, VInt 0, VInt 1] no_defaults,
      make_row Memories_columns
        [VText ''u08'', VText ''NamedAbstraction'', VInt 0, VInt 0, VInt 0, VInt 0] no_defaults,
      make_row Memories_columns
        [VText ''u10'', VText ''NamedAbstraction'', VInt 0, VInt 0, VInt 0, VInt 0] no_defaults]"
  "db snapshot_store ''Chats'' =
     [make_row [''uuid'', ''speaker'', ''chat'', ''time'']
        [VText ''u05'', VText ''speaker'', VText ''hello'', VInt 0] no_defaults,
      make_row [''uuid'', ''speaker'', ''chat'', ''time'']
        [VText ''u06'', VText ''speaker'', VText ''hello'', VInt 0] no_defaults]"
  "db snapshot_store ''Triples'' =
     db fresh_store ''Triples'' @
     [make_row Triples_columns
        [VText ''u07'', VText ''u06'', VNull, VText ''u08'', VText ''_archive_of'',
         VText ''u05'', VNull, VReal 1] no_defaults,
      make_row Triples_columns
        [VText ''u09'', VText ''u05'', VNull, VText ''u10'', VText ''_has_archive'',
         VText ''u06'', VNull, VReal 1] no_defaults]"
  by (simp_all add: snapshot_store_def chat_node_def chat_store_def eval_defs fresh_store_tables fresh_store_simps
        fresh_store_more)


lemma snapshot_store_key: "Memories_key snapshot_store"
  by (simp add: Memories_key_def snapshot_store_tables fresh_store_tables make_row_apply
        Memories_columns_def zeros_not_short)

lemma snapshot_store_queries:
  "get_triples None None None (Some ''_archive_of'') None ''if_exists'' snapshot_store = Inr []"
  "get_triples None None None (Some ''_has_archive'') None ''if_exists'' snapshot_store =
     Inr [(VText ''u05'', VText ''_has_archive'', VText ''u06'')]"
  "get_memids_by_tag ''_self'' snapshot_store = [VText (replicate 32 CHR ''0'')]"
  by (simp_all add: get_triples_def get_memids_by_tag_def live_join_def where_clause_def
        str_truthy_def py_truthy_def project_def snapshot_store_tables fresh_store_tables
        make_row_apply Memories_columns_def Triples_columns_def no_defaults_def zeros_not_short)

theorem live_queries_exclude_snapshots_witness:
  "Memories_key snapshot_store \<and>
   get_triples None None None (Some ''_archive_of'') None ''if_exists'' snapshot_store = Inr [] \<and>
   get_triples None None None (Some ''_has_archive'') None ''if_exists'' snapshot_store =
     Inr [(VText ''u05'', VText ''_has_archive'', VText ''u06'')] \<and>
   get_memids_by_tag ''_self'' snapshot_store = [VText (replicate 32 CHR ''0'')] \<and>
   \<not> (\<exists>M \<in> set (db snapshot_store ''Memories'').
         sql_eq (M ''uuid'') (VText ''u05'') \<and> \<not> sql_eq (M ''is_snapshot'') (VInt 0)) \<and>
   \<not> (\<exists>M \<in> set (db snapshot_store ''Memories'').
         sql_eq (M ''uuid'') (VText (replicate 32 CHR ''0'')) \<and>
         \<not> sql_eq (M ''is_snapshot'') (VInt 0))"
proof -
  note th = live_queries_exclude_snapshots [OF snapshot_store_key,
      of None None None "Some ''_has_archive''" None "''if_exists''" "''_self''"]
  from th have a: "\<forall>M \<in> set (db snapshot_store ''Memories'').
      sql_eq (M ''uuid'') (VText ''u05'') \<longrightarrow> sql_eq (M ''is_snapshot'') (VInt 0)"
    unfolding snapshot_store_queries by simp
  from th have b: "\<forall>M \<in> set (db snapshot_store ''Memories'').
      sql_eq (M ''uuid'') (VText (replicate 32 CHR ''0'')) \<longrightarrow> sql_eq (M ''is_snapshot'') (VInt 0)"
    unfolding snapshot_store_queries by simp
  from a b show ?thesis
    using snapshot_store_key snapshot_store_queries by blast
qed

subsection \<open>Named abstractions\<close>

lemma name_row_simps [simp]:
  "make_row [''uuid'', ''name''] [a, b] d ''uuid'' = a"
  "make_row [''uuid'', ''name''] [a, b] d ''name'' = b"
  by (simp_all add: make_row_def)

lemma create_found:
  assumes "named_abstractions m n \<noteq> []"
  shows "NamedAbstractionNode_create n s m = (hd (named_abstractions m n) ''uuid'', m)"
proof -
  from assms obtain r rs where "named_abstractions m n = r # rs"
    by (cases "named_abstractions m n") auto
  then show ?thesis
    by (simp add: NamedAbstractionNode_create_def named_abstractions_def project_def fetchone_def)
qed

lemma create_made:
  assumes "named_abstractions m n = []"
  shows "NamedAbstractionNode_create n s m =
           (VText (uuid_source m (uuid_count m)),
            sql_insert ''NamedAbstractions''
              (make_row [''uuid'', ''name''] [VText (uuid_source m (uuid_count m)), VText n] no_defaults)
              (snd (new NamedAbstractionNode s m)))"
  using assms
  by (simp add: NamedAbstractionNode_create_def named_abstractions_def project_def fetchone_def
        split_beta)

lemma named_after_create:
  "named_abstractions (snd (NamedAbstractionNode_create n s m)) y =
     (if named_abstractions m n = [] \<and> y = n
      then [make_row [''uuid'', ''name''] [VText (uuid_source m (uuid_count m)), VText n] no_defaults]
      else named_abstractions m y)"
proof (cases "named_abstractions m n = []")
  case True
  then show ?thesis
    by (auto simp add: create_made) (auto simp add: named_abstractions_def)
next
  case False
  then show ?thesis by (simp add: create_found)
qed

lemma create_returns_first:
  "fst (NamedAbstractionNode_create n s m) =
     hd (named_abstractions (snd (NamedAbstractionNode_create n s m)) n) ''uuid''"
proof (cases "named_abstractions m n = []")
  case True
  then show ?thesis by (simp add: named_after_create) (simp add: create_made)
next
  case False
  then show ?thesis by (simp add: create_found)
qed

lemma memories_after_create:
  "db (snd (NamedAbstractionNode_create n s m)) ''Memories'' =
     (if named_abstractions m n = []
      then db m ''Memories'' @
           [make_row Memories_columns
              [VText (uuid_source m (uuid_count m)), VText ''NamedAbstraction'', VInt (time m),
               VInt (time m), VInt (time m), py_bool s] no_defaults]
      else db m ''Memories'')"
  by (cases "named_abstractions m n = []") (simp_all add: create_made create_found py_str_def)

text \<open>
  \<^verbatim>\<open>NamedAbstractionNode.create\<close> is idempotent: called again with the same name it returns
  the same id and leaves the store as the first call left it.
\<close>

lemma create_idempotent:
  "NamedAbstractionNode_create n s' (snd (NamedAbstractionNode_create n s m)) =
     (fst (NamedAbstractionNode_create n s m), snd (NamedAbstractionNode_create n s m))"
proof -
  let ?m1 = "snd (NamedAbstractionNode_create n s m)"
  have "named_abstractions ?m1 n \<noteq> []"
    by (simp add: named_after_create)
  then show ?thesis
    by (simp add: create_found create_returns_first [symmetric])
qed


lemma uuid4_simps [simp]:
  "fst (uuid4 m) = uuid_source m (uuid_count m)"
  "db (snd (uuid4 m)) = db m"
  "time (snd (uuid4 m)) = time m"
  "uuid_source (snd (uuid4 m)) = uuid_source m"
  "uuid_count (snd (uuid4 m)) = Suc (uuid_count m)"
  "nodes (snd (uuid4 m)) = nodes m"
  "self_memid (snd (uuid4 m)) = self_memid m"
  by (simp_all add: uuid4_def)

lemma named_frames [simp]:
  "named_abstractions (snd (uuid4 m)) y = named_abstractions m y"
  "t \<noteq> ''NamedAbstractions'' \<Longrightarrow> named_abstractions (sql_insert t r m) y = named_abstractions m y"
  by (simp_all add: named_abstractions_def uuid4_def)

lemma named_after_resolve:
  "named_abstractions (snd (resolve u text m)) y =
     (if u = [] \<and> named_abstractions m text = [] \<and> y = text
      then [make_row [''uuid'', ''name''] [VText (uuid_source m (uuid_count m)), VText text] no_defaults]
      else named_abstractions m y)"
  by (simp add: resolve_def named_after_create)

lemma resolve_found:
  assumes "u = [] \<longrightarrow> named_abstractions m text \<noteq> []"
  shows "resolve u text m =
           (if u = [] then hd (named_abstractions m text) ''uuid'' else VText u, m)"
  using assms by (simp add: resolve_def create_found)

lemma resolve_returns_first:
  "u = [] \<Longrightarrow>
   fst (resolve u text m) = hd (named_abstractions (snd (resolve u text m)) text) ''uuid''"
  by (simp add: resolve_def create_returns_first [symmetric])

lemma add_triple_accepted:
  assumes "subj \<noteq> [] \<or> subj_text \<noteq> []" and "obj \<noteq> [] \<or> obj_text \<noteq> []"
    and "\<not> (subj \<noteq> [] \<and> subj_text \<noteq> [])" and "\<not> (obj \<noteq> [] \<and> obj_text \<noteq> [])"
  shows "add_triple subj obj subj_text pred_text obj_text confidence m =
     (let pm = NamedAbstractionNode_create pred_text False (snd (uuid4 m));
          om = resolve obj obj_text (snd pm);
          sm = resolve subj subj_text (snd om)
      in (Inr (),
          sql_insert ''Triples''
            (make_row Triples_columns
               [VText (fst (uuid4 m)), fst sm, if subj_text = [] then VNull else VText subj_text,
                fst pm, VText pred_text, fst om, if obj_text = [] then VNull else VText obj_text,
                VReal confidence]
               no_defaults) (snd sm)))"
  using assms by (simp add: add_triple_def resolve_def split_beta Let_def)



lemma create_frames:
  "t \<noteq> ''Memories'' \<Longrightarrow> t \<noteq> ''NamedAbstractions'' \<Longrightarrow>
   db (snd (NamedAbstractionNode_create n s m)) t = db m t"
  by (cases "named_abstractions m n = []") (simp_all add: create_made create_found)

lemma resolve_frames:
  "t \<noteq> ''Memories'' \<Longrightarrow> t \<noteq> ''NamedAbstractions'' \<Longrightarrow> db (snd (resolve u text m)) t = db m t"
  by (simp add: resolve_def create_frames)

lemma named_kept_create:
  "named_abstractions m y \<noteq> [] \<Longrightarrow>
   named_abstractions (snd (NamedAbstractionNode_create n s m)) y = named_abstractions m y"
  by (auto simp add: named_after_create)

lemma named_kept_resolve:
  "named_abstractions m y \<noteq> [] \<Longrightarrow>
   named_abstractions (snd (resolve u text m)) y = named_abstractions m y"
  by (auto simp add: named_after_resolve)

lemma named_made_create: "named_abstractions (snd (NamedAbstractionNode_create n s m)) n \<noteq> []"
  by (simp add: named_after_create)

lemma named_made_resolve: "u = [] \<Longrightarrow> named_abstractions (snd (resolve u text m)) text \<noteq> []"
  by (simp add: named_after_resolve)

lemma grown_create:
  assumes "grown m x m'"
  shows "grown m x (snd (NamedAbstractionNode_create n False m'))"
proof (cases "named_abstractions m' n = []")
  case False
  then show ?thesis using assms by (simp add: create_found)
next
  case True
  from assms obtain new where new: "db m' ''Memories'' = db m ''Memories'' @ new"
    and ent: "named_abstractions m' x \<noteq> [] \<longrightarrow>
            (\<exists>M \<in> set new. M ''uuid'' = hd (named_abstractions m' x) ''uuid'' \<and>
                             M ''node_type'' = VText ''NamedAbstraction'')"
    and len: "length (named_abstractions m' x) \<le> 1"
    by (auto simp add: grown_def)
  let ?E = "make_row Memories_columns
              [VText (uuid_source m' (uuid_count m')), VText ''NamedAbstraction'', VInt (time m'),
               VInt (time m'), VInt (time m'), py_bool False] no_defaults"
  let ?m'' = "snd (NamedAbstractionNode_create n False m')"
  have mem: "db ?m'' ''Memories'' = db m ''Memories'' @ (new @ [?E])"
    using True by (simp add: memories_after_create new)
  show ?thesis
  proof (cases "x = n")
    case True
    with \<open>named_abstractions m' n = []\<close> show ?thesis
      unfolding grown_def by (simp add: named_after_create mem)
  next
    case False
    then have "named_abstractions ?m'' x = named_abstractions m' x"
      by (simp add: named_after_create)
    with len ent mem show ?thesis
      unfolding grown_def by auto
  qed
qed

lemma grown_resolve:
  "grown m x m' \<Longrightarrow> grown m x (snd (resolve u text m'))"
  by (simp add: resolve_def grown_create)

lemma grown_start: "named_abstractions m x = [] \<Longrightarrow> grown m x (snd (uuid4 m))"
  by (simp add: grown_def)

lemma grown_insert: "grown m x m' \<Longrightarrow> grown m x (sql_insert ''Triples'' r m')"
  by (simp add: grown_def)

text \<open>
  C10.  A call of \<^verbatim>\<open>add_triple\<close> that passes its assertions returns normally and, for every
  text \<open>x\<close> it was given (the predicate text, and a non-empty object or subject text),
  leaves a NamedAbstraction with that name: the rows there were, unchanged, if there was
  one, and otherwise exactly one new row, whose id is that of a new entity of kind
  NamedAbstraction.  The same call made again adds no NamedAbstraction row and no entity,
  and its triple carries the same subject, predicate and object ids as the first.
  \<^verbatim>\<open>NamedAbstractionNode.create\<close> itself is idempotent.
\<close>

theorem add_triple_materializes_and_reuses:
  assumes "subj \<noteq> [] \<or> subj_text \<noteq> []" and "obj \<noteq> [] \<or> obj_text \<noteq> []"
    and "\<not> (subj \<noteq> [] \<and> subj_text \<noteq> [])" and "\<not> (obj \<noteq> [] \<and> obj_text \<noteq> [])"
    and "x = pred_text \<or> (x = obj_text \<and> obj_text \<noteq> []) \<or> (x = subj_text \<and> subj_text \<noteq> [])"
  shows
    "(let m1 = snd (add_triple subj obj subj_text pred_text obj_text confidence m);
          m2 = snd (add_triple subj obj subj_text pred_text obj_text confidence m1)
      in fst (add_triple subj obj subj_text pred_text obj_text confidence m) = Inr () \<and>
         named_abstractions m1 x \<noteq> [] \<and>
         (named_abstractions m x \<noteq> [] \<longrightarrow> named_abstractions m1 x = named_abstractions m x) \<and>
         (named_abstractions m x = [] \<longrightarrow>
            length (named_abstractions m1 x) = 1 \<and>
            (\<exists>new. db m1 ''Memories'' = db m ''Memories'' @ new \<and>
               (\<exists>M \<in> set new. M ''uuid'' = hd (named_abstractions m1 x) ''uuid'' \<and>
                                M ''node_type'' = VText ''NamedAbstraction''))) \<and>
         fst (add_triple subj obj subj_text pred_text obj_text confidence m1) = Inr () \<and>
         db m2 ''NamedAbstractions'' = db m1 ''NamedAbstractions'' \<and>
         db m2 ''Memories'' = db m1 ''Memories'' \<and>
         (\<exists>t1 t2. db m1 ''Triples'' = db m ''Triples'' @ [t1] \<and>
                  db m2 ''Triples'' = db m1 ''Triples'' @ [t2] \<and>
                  t2 ''subj'' = t1 ''subj'' \<and> t2 ''pred'' = t1 ''pred'' \<and> t2 ''obj'' = t1 ''obj'') \<and>
         NamedAbstractionNode_create x False (snd (NamedAbstractionNode_create x False m)) =
           (fst (NamedAbstractionNode_create x False m), snd (NamedAbstractionNode_create x False m)))"
proof -
  define pm where "pm = NamedAbstractionNode_create pred_text False (snd (uuid4 m))"
  define om where "om = resolve obj obj_text (snd pm)"
  define sm where "sm = resolve subj subj_text (snd om)"
  define t1 where "t1 = make_row Triples_columns
      [VText (fst (uuid4 m)), fst sm, if subj_text = [] then VNull else VText subj_text,
       fst pm, VText pred_text, fst om, if obj_text = [] then VNull else VText obj_text,
       VReal confidence] no_defaults"
  define m1 where "m1 = sql_insert ''Triples'' t1 (snd sm)"
  have first: "add_triple subj obj subj_text pred_text obj_text confidence m = (Inr (), m1)"
    by (simp add: add_triple_accepted [OF assms(1-4)] Let_def pm_def om_def sm_def t1_def m1_def)
  have m1_named: "named_abstractions m1 y = named_abstractions (snd sm) y" for y
    by (simp add: m1_def)
  \<comment> \<open>the texts given have a row after the first call, and its first row gave the id\<close>
  have p1: "named_abstractions (snd pm) pred_text \<noteq> []"
    by (simp add: pm_def named_made_create)
  then have p2: "named_abstractions m1 pred_text = named_abstractions (snd pm) pred_text"
    by (simp add: m1_named sm_def om_def named_kept_resolve)
  have p3: "fst pm = hd (named_abstractions m1 pred_text) ''uuid''"
    by (simp add: p2) (simp add: pm_def create_returns_first [symmetric])
  have o1: "named_abstractions (snd om) obj_text \<noteq> []" if "obj = []"
    using that by (simp add: om_def named_made_resolve)
  then have o2: "named_abstractions m1 obj_text = named_abstractions (snd om) obj_text" if "obj = []"
    using that by (simp add: m1_named sm_def named_kept_resolve)
  have o3: "fst om = hd (named_abstractions m1 obj_text) ''uuid''" if "obj = []"
    using that by (simp add: o2) (simp add: om_def resolve_returns_first [symmetric])
  have s1: "named_abstractions m1 subj_text \<noteq> []" if "subj = []"
    using that by (simp add: m1_named sm_def named_made_resolve)
  have s3: "fst sm = hd (named_abstractions m1 subj_text) ''uuid''" if "subj = []"
    using that by (simp add: m1_named) (simp add: sm_def resolve_returns_first [symmetric])
  have made: "named_abstractions m1 x \<noteq> []"
    using assms(2-5) p1 p2 o1 o2 s1 by auto
  \<comment> \<open>rows that were there are kept\<close>
  have kept: "named_abstractions m1 x = named_abstractions m x" if "named_abstractions m x \<noteq> []"
    using that
    by (simp add: m1_named sm_def om_def pm_def named_kept_resolve named_kept_create)
  \<comment> \<open>a text without a row gets one row and one entity\<close>
  have "grown m x m1" if "named_abstractions m x = []"
    unfolding m1_def sm_def om_def pm_def
    by (intro grown_insert grown_resolve grown_create grown_start that)
  with made
  have new: "length (named_abstractions m1 x) = 1 \<and>
      (\<exists>new. db m1 ''Memories'' = db m ''Memories'' @ new \<and>
         (\<exists>M \<in> set new. M ''uuid'' = hd (named_abstractions m1 x) ''uuid'' \<and>
                          M ''node_type'' = VText ''NamedAbstraction''))"
    if "named_abstractions m x = []"
    using that by (cases "named_abstractions m1 x") (auto simp add: grown_def)
  \<comment> \<open>the second call finds all three\<close>
  define t2 where "t2 = make_row Triples_columns
      [VText (fst (uuid4 m1)),
       if subj = [] then hd (named_abstractions m1 subj_text) ''uuid'' else VText subj,
       if subj_text = [] then VNull else VText subj_text,
       hd (named_abstractions m1 pred_text) ''uuid'', VText pred_text,
       if obj = [] then hd (named_abstractions m1 obj_text) ''uuid'' else VText obj,
       if obj_text = [] then VNull else VText obj_text,
       VReal confidence] no_defaults"
  define m2 where "m2 = sql_insert ''Triples'' t2 (snd (uuid4 m1))"
  have pn: "named_abstractions m1 pred_text \<noteq> []"
    using p1 p2 by simp
  have on: "obj = [] \<longrightarrow> named_abstractions m1 obj_text \<noteq> []"
    using o1 o2 by simp
  have sn: "subj = [] \<longrightarrow> named_abstractions m1 subj_text \<noteq> []"
    using s1 by simp
  have second: "add_triple subj obj subj_text pred_text obj_text confidence m1 = (Inr (), m2)"
    using pn on sn
    by (simp add: add_triple_accepted [OF assms(1-4)] Let_def create_found resolve_found
          t2_def m2_def)
  have same: "t2 ''subj'' = t1 ''subj'' \<and> t2 ''pred'' = t1 ''pred'' \<and> t2 ''obj'' = t1 ''obj''"
    using p3 o3 s3
    by (simp add: t1_def t2_def make_row_apply Triples_columns_def)
      (simp add: om_def sm_def resolve_def)
  have triples: "\<exists>t1 t2. db m1 ''Triples'' = db m ''Triples'' @ [t1] \<and>
                  db m2 ''Triples'' = db m1 ''Triples'' @ [t2] \<and>
                  t2 ''subj'' = t1 ''subj'' \<and> t2 ''pred'' = t1 ''pred'' \<and> t2 ''obj'' = t1 ''obj''"
  proof (intro exI conjI)
    show "db m1 ''Triples'' = db m ''Triples'' @ [t1]"
      by (simp add: m1_def sm_def om_def pm_def resolve_frames create_frames)
    show "db m2 ''Triples'' = db m1 ''Triples'' @ [t2]"
      by (simp add: m2_def)
  qed (simp_all add: same)
  have e1: "fst (add_triple subj obj subj_text pred_text obj_text confidence m) = Inr ()"
    "snd (add_triple subj obj subj_text pred_text obj_text confidence m) = m1"
    by (simp_all add: first)
  have e2: "fst (add_triple subj obj subj_text pred_text obj_text confidence m1) = Inr ()"
    "snd (add_triple subj obj subj_text pred_text obj_text confidence m1) = m2"
    by (simp_all add: second)
  have unchanged: "db m2 ''NamedAbstractions'' = db m1 ''NamedAbstractions''"
    "db m2 ''Memories'' = db m1 ''Memories''"
    by (simp_all add: m2_def)
  show ?thesis
    unfolding Let_def e1 e2
    using made kept new triples unchanged
    by (simp add: create_idempotent)
qed


theorem add_triple_materializes_and_reuses_witness:
  "named_abstractions fresh_store ''blue'' = [] \<and>
   named_abstractions fresh_store ''has_tag'' \<noteq> [] \<and>
   fst (add_triple (self_memid fresh_store) [] [] ''has_colour'' ''blue'' 1 fresh_store) = Inr () \<and>
   length (named_abstractions
             (snd (add_triple (self_memid fresh_store) [] [] ''has_colour'' ''blue'' 1 fresh_store))
             ''blue'') = 1 \<and>
   db (snd (add_triple (self_memid fresh_store) [] [] ''has_colour'' ''blue'' 1
              (snd (add_triple (self_memid fresh_store) [] [] ''has_colour'' ''blue'' 1 fresh_store))))
      ''NamedAbstractions'' =
   db (snd (add_triple (self_memid fresh_store) [] [] ''has_colour'' ''blue'' 1 fresh_store))
      ''NamedAbstractions'' \<and>
   db (snd (add_triple (self_memid fresh_store) [] [] ''has_colour'' ''blue'' 1
              (snd (add_triple (self_memid fresh_store) [] [] ''has_colour'' ''blue'' 1 fresh_store))))
      ''Memories'' =
   db (snd (add_triple (self_memid fresh_store) [] [] ''has_colour'' ''blue'' 1 fresh_store))
      ''Memories''"
proof -
  have "self_memid fresh_store = replicate 32 CHR ''0''"
    by (simp add: fresh_store_def eval_defs)
  then have self: "self_memid fresh_store \<noteq> []" by simp
  have none: "named_abstractions fresh_store ''blue'' = []"
    and some: "named_abstractions fresh_store ''has_tag'' \<noteq> []"
    by (simp_all add: named_abstractions_def fresh_store_tables)
  have h1: "self_memid fresh_store \<noteq> [] \<or> ([]::string) \<noteq> []" using self by simp
  have h2: "([]::string) \<noteq> [] \<or> ''blue'' \<noteq> []" by simp
  have h3: "\<not> (self_memid fresh_store \<noteq> [] \<and> ([]::string) \<noteq> [])" by simp
  have h4: "\<not> (([]::string) \<noteq> [] \<and> ''blue'' \<noteq> [])" by simp
  have h5: "''blue'' = ''has_colour'' \<or> (''blue'' = ''blue'' \<and> ''blue'' \<noteq> []) \<or>
            (''blue'' = [] \<and> ([]::string) \<noteq> [])" by simp
  note th = add_triple_materializes_and_reuses [OF h1 h2 h3 h4 h5, of 1 fresh_store,
      unfolded Let_def]
  from th none some show ?thesis by simp
qed

subsection \<open>The order of the task stack\<close>

lemma set_insert_by [simp]: "set (insert_by le x ys) = insert x (set ys)"
  by (induction ys) auto

lemma set_sorted_by [simp]: "set (foldr (insert_by le) xs []) = set xs"
  by (induction xs) auto




lemma push_at_simps [simp]:
  "db (push_at k tk m) ''Tasks'' =
     db m ''Tasks'' @ [task_row (uuid_source m (uuid_count m)) tk (time m + k)]"
  "time (push_at k tk m) = time m + k"
  "uuid_source (push_at k tk m) = uuid_source m"
  "uuid_count (push_at k tk m) = Suc (uuid_count m)"
  by (simp_all add: push_at_def push_plain)

lemma active_task_row [simp]: "active (task_row u tk t)"
  by (simp add: active_def)





subsection \<open>Snapshots\<close>

lemma create_counts [simp]:
  "uuid_source (snd (NamedAbstractionNode_create n s m)) = uuid_source m"
  "time (snd (NamedAbstractionNode_create n s m)) = time m"
  "nodes (snd (NamedAbstractionNode_create n s m)) = nodes m"
  "uuid_count (snd (NamedAbstractionNode_create n s m)) =
     (if named_abstractions m n = [] then Suc (uuid_count m) else uuid_count m)"
  by (cases "named_abstractions m n = []"; simp add: create_made create_found)+

text \<open>
  What \<^verbatim>\<open>add_triple\<close> does when both sides are memids: one new triple, and for the
  predicate text a NamedAbstraction if it has none.
\<close>

lemma add_triple_memids:
  assumes "subj \<noteq> []" and "obj \<noteq> []"
  shows "add_triple subj obj [] pred_text [] c m =
     (Inr (),
      sql_insert ''Triples''
        (make_row Triples_columns
           [VText (uuid_source m (uuid_count m)), VText subj, VNull,
            fst (NamedAbstractionNode_create pred_text False (snd (uuid4 m))), VText pred_text,
            VText obj, VNull, VReal c] no_defaults)
        (snd (NamedAbstractionNode_create pred_text False (snd (uuid4 m)))))"
  using assms by (simp add: add_triple_accepted Let_def resolve_def)

lemma triples_row_simps [simp]:
  "make_row Triples_columns [a, b, c, d, e, f, g, h] dflt ''uuid'' = a"
  "make_row Triples_columns [a, b, c, d, e, f, g, h] dflt ''subj'' = b"
  "make_row Triples_columns [a, b, c, d, e, f, g, h] dflt ''subj_text'' = c"
  "make_row Triples_columns [a, b, c, d, e, f, g, h] dflt ''pred'' = d"
  "make_row Triples_columns [a, b, c, d, e, f, g, h] dflt ''pred_text'' = e"
  "make_row Triples_columns [a, b, c, d, e, f, g, h] dflt ''obj'' = f"
  "make_row Triples_columns [a, b, c, d, e, f, g, h] dflt ''obj_text'' = g"
  "make_row Triples_columns [a, b, c, d, e, f, g, h] dflt ''confidence'' = h"
  by (simp_all add: make_row_def Triples_columns_def)

lemma abstraction_rows_mono:
  "abstraction_rows ids rs \<Longrightarrow> ids \<subseteq> ids' \<Longrightarrow> abstraction_rows ids' rs"
  by (auto simp add: abstraction_rows_def)

lemma abstraction_rows_append:
  "abstraction_rows ids rs \<Longrightarrow> abstraction_rows ids rs' \<Longrightarrow> abstraction_rows ids (rs @ rs')"
  by (auto simp add: abstraction_rows_def)

lemma add_triple_memids_effect:
  assumes "subj \<noteq> []" and "obj \<noteq> []"
  shows "\<exists>t nas extra.
     add_triple subj obj [] pred_text [] c m =
       (Inr (), snd (add_triple subj obj [] pred_text [] c m)) \<and>
     db (snd (add_triple subj obj [] pred_text [] c m)) ''Triples'' = db m ''Triples'' @ [t] \<and>
     t ''subj'' = VText subj \<and> t ''pred_text'' = VText pred_text \<and> t ''obj'' = VText obj \<and>
     db (snd (add_triple subj obj [] pred_text [] c m)) ''Memories'' = db m ''Memories'' @ nas \<and>
     abstraction_rows {uuid_source m (Suc (uuid_count m))} nas \<and>
     db (snd (add_triple subj obj [] pred_text [] c m)) ''NamedAbstractions'' =
       db m ''NamedAbstractions'' @ extra \<and>
     (\<forall>tbl. tbl \<noteq> ''Triples'' \<and> tbl \<noteq> ''Memories'' \<and> tbl \<noteq> ''NamedAbstractions'' \<longrightarrow>
        db (snd (add_triple subj obj [] pred_text [] c m)) tbl = db m tbl) \<and>
     uuid_source (snd (add_triple subj obj [] pred_text [] c m)) = uuid_source m \<and>
     time (snd (add_triple subj obj [] pred_text [] c m)) = time m \<and>
     nodes (snd (add_triple subj obj [] pred_text [] c m)) = nodes m \<and>
     uuid_count (snd (add_triple subj obj [] pred_text [] c m)) \<in> {uuid_count m + 1, uuid_count m + 2}"
proof (cases "named_abstractions m pred_text = []")
  case True
  then show ?thesis
    unfolding add_triple_memids [OF assms]
    by (simp add: create_made abstraction_rows_def py_str_def py_bool_def)
next
  case False
  then show ?thesis
    unfolding add_triple_memids [OF assms]
    by (simp add: create_found abstraction_rows_def)
qed


lemma link_effect:
  assumes "u \<noteq> []" and "a \<noteq> []"
  shows "\<exists>t1 t2 nas extra.
     link_archive_to_mem u a m = (Inr (), snd (link_archive_to_mem u a m)) \<and>
     db (snd (link_archive_to_mem u a m)) ''Triples'' = db m ''Triples'' @ [t1, t2] \<and>
     t1 ''subj'' = VText a \<and> t1 ''pred_text'' = VText ''_archive_of'' \<and> t1 ''obj'' = VText u \<and>
     t2 ''subj'' = VText u \<and> t2 ''pred_text'' = VText ''_has_archive'' \<and> t2 ''obj'' = VText a \<and>
     db (snd (link_archive_to_mem u a m)) ''Memories'' = db m ''Memories'' @ nas \<and>
     abstraction_rows (uuid_source m ` {uuid_count m + 1 .. uuid_count m + 3}) nas \<and>
     db (snd (link_archive_to_mem u a m)) ''NamedAbstractions'' = db m ''NamedAbstractions'' @ extra \<and>
     (\<forall>tbl. tbl \<noteq> ''Triples'' \<and> tbl \<noteq> ''Memories'' \<and> tbl \<noteq> ''NamedAbstractions'' \<longrightarrow>
        db (snd (link_archive_to_mem u a m)) tbl = db m tbl) \<and>
     time (snd (link_archive_to_mem u a m)) = time m \<and>
     nodes (snd (link_archive_to_mem u a m)) = nodes m"
proof -
  define m1 where "m1 = snd (add_triple a u [] ''_archive_of'' [] 1 m)"
  define m2 where "m2 = snd (add_triple u a [] ''_has_archive'' [] 1 m1)"
  from add_triple_memids_effect [OF assms(2,1), of "''_archive_of''" 1 m, folded m1_def]
  obtain t1 nas1 extra1 where 1:
    "add_triple a u [] ''_archive_of'' [] 1 m = (Inr (), m1)"
    "db m1 ''Triples'' = db m ''Triples'' @ [t1]"
    "t1 ''subj'' = VText a" "t1 ''pred_text'' = VText ''_archive_of''" "t1 ''obj'' = VText u"
    "db m1 ''Memories'' = db m ''Memories'' @ nas1"
    "abstraction_rows {uuid_source m (Suc (uuid_count m))} nas1"
    "db m1 ''NamedAbstractions'' = db m ''NamedAbstractions'' @ extra1"
    "\<forall>tbl. tbl \<noteq> ''Triples'' \<and> tbl \<noteq> ''Memories'' \<and> tbl \<noteq> ''NamedAbstractions'' \<longrightarrow>
        db m1 tbl = db m tbl"
    "uuid_source m1 = uuid_source m" "time m1 = time m" "nodes m1 = nodes m"
    "uuid_count m1 \<in> {uuid_count m + 1, uuid_count m + 2}"
    by (elim exE conjE) (rule that; assumption)
  from add_triple_memids_effect [OF assms(1,2), of "''_has_archive''" 1 m1, folded m2_def]
  obtain t2 nas2 extra2 where 2:
    "add_triple u a [] ''_has_archive'' [] 1 m1 = (Inr (), m2)"
    "db m2 ''Triples'' = db m1 ''Triples'' @ [t2]"
    "t2 ''subj'' = VText u" "t2 ''pred_text'' = VText ''_has_archive''" "t2 ''obj'' = VText a"
    "db m2 ''Memories'' = db m1 ''Memories'' @ nas2"
    "abstraction_rows {uuid_source m1 (Suc (uuid_count m1))} nas2"
    "db m2 ''NamedAbstractions'' = db m1 ''NamedAbstractions'' @ extra2"
    "\<forall>tbl. tbl \<noteq> ''Triples'' \<and> tbl \<noteq> ''Memories'' \<and> tbl \<noteq> ''NamedAbstractions'' \<longrightarrow>
        db m2 tbl = db m1 tbl"
    "uuid_source m2 = uuid_source m1" "time m2 = time m1" "nodes m2 = nodes m1"
    by (elim exE conjE) (rule that; assumption)
  have link: "link_archive_to_mem u a m = (Inr (), m2)"
    by (simp add: link_archive_to_mem_def 1(1) 2(1))
  have "{uuid_source m (Suc (uuid_count m))} \<subseteq> uuid_source m ` {uuid_count m + 1 .. uuid_count m + 3}"
    by auto
  moreover have "{uuid_source m1 (Suc (uuid_count m1))} \<subseteq>
      uuid_source m ` {uuid_count m + 1 .. uuid_count m + 3}"
    using 1(10,13) by auto
  ultimately
  have rows: "abstraction_rows (uuid_source m ` {uuid_count m + 1 .. uuid_count m + 3}) (nas1 @ nas2)"
    using 1(7) 2(7) by (blast intro: abstraction_rows_append abstraction_rows_mono)
  show ?thesis
    unfolding link
    apply (rule exI [of _ t1], rule exI [of _ t2], rule exI [of _ "nas1 @ nas2"],
        rule exI [of _ "extra1 @ extra2"])
    using 1 2 rows by simp
qed


lemma TABLE_not_core:
  assumes "TABLE cls = Some tbl"
  shows "tbl \<noteq> ''Memories''" "tbl \<noteq> ''Triples''"
    "(case ARCHIVE_TABLE cls of Some a \<Rightarrow> a | None \<Rightarrow> tbl) \<noteq> ''Memories''"
    "(case ARCHIVE_TABLE cls of Some a \<Rightarrow> a | None \<Rightarrow> tbl) \<noteq> ''Triples''"
  using assms by (cases cls; auto)+

lemma copy_row:
  "make_row (TABLE_COLUMNS cls) ((map e (TABLE_COLUMNS cls))[0 := v]) dflt ''uuid'' = v"
  "c \<in> set (TABLE_COLUMNS cls) \<Longrightarrow> c \<noteq> ''uuid'' \<Longrightarrow>
   make_row (TABLE_COLUMNS cls) ((map e (TABLE_COLUMNS cls))[0 := v]) dflt c = e c"
  by (cases cls; auto simp add: make_row_def)+

lemma init_memid: "init cls m u = Inr n \<Longrightarrow> memid n = u"
  by (cases cls) (auto split: option.splits)

lemma get_mem_by_id_memid: "get_mem_by_id m u t = Inr n \<Longrightarrow> memid n = u"
  by (auto simp add: get_mem_by_id_def construct_def init_memid
      split: option.splits sum.splits val.splits)

lemma collect_memids:
  assumes "collect (\<lambda>v. case v of VText u \<Rightarrow> get_mem_by_id m u t | _ \<Rightarrow> Inl TypeError) vs = Inr ns"
  shows "\<forall>n \<in> set ns. VText (memid n) \<in> set vs"
  using assms
proof (induction vs arbitrary: ns)
  case Nil
  then show ?case by simp
next
  case (Cons v vs)
  then show ?case
    by (auto split: sum.splits val.splits dest!: get_mem_by_id_memid)
qed

lemma recent_memids_live:
  assumes "v \<in> set (recent_memids m memtype w)"
  shows "\<exists>M \<in> set (db m ''Memories''). M ''uuid'' = v \<and> sql_eq (M ''is_snapshot'') (VInt 0)"
  using assms by (auto simp add: recent_memids_def order_by_desc_def)


text \<open>
  \<^verbatim>\<open>MemoryNode.snapshot\<close>, which every class but \<^verbatim>\<open>SetNode\<close> inherits.  Let \<open>self\<close> be a
  node of a class other than \<^verbatim>\<open>SetNode\<close>, for an
  entity \<open>Me\<close> of that class's kind whose attribute row \<open>e\<close> is in the class's table, and
  let the identifiers that \<^verbatim>\<open>uuid4\<close> hands out be non-empty and new.  Then \<^verbatim>\<open>snapshot\<close>
  returns normally and
  \<^item> the Memories table keeps its rows, \<open>Me\<close> among them, and gains one row with
    \<^verbatim>\<open>is_snapshot\<close> set, of the kind of \<open>Me\<close>, followed by at most the NamedAbstractions
    of the two predicate texts, which are not snapshots;
  \<^item> the class's table keeps its rows, and \<open>e\<close> is still the row read for the entity;
  \<^item> the archive table holds a row with the new id that agrees with \<open>e\<close> on every other
    column of \<^verbatim>\<open>TABLE_COLUMNS\<close>;
  \<^item> the Triples table gains exactly (s, _archive_of, e) and (e, _has_archive, s);
  \<^item> the new id is not returned by the query of \<^verbatim>\<open>get_recent_entities\<close>, nor is a node
    carrying it, for any kind and any window.
\<close>

lemma snapshot_archives:
  assumes "node_class self \<noteq> SetNode"
    and "TABLE (node_class self) = Some tbl"
    and "Me \<in> set (db m ''Memories'')" and "Me ''uuid'' = VText (memid self)"
    and "Me ''node_type'' = py_str (NODE_TYPE (node_class self))"
    and "filter (\<lambda>r. sql_eq (r ''uuid'') (VText (memid self))) (db m tbl) = e # rest"
    and "memid self \<noteq> []" and "uuid_source m (uuid_count m) \<noteq> []"
    and "\<forall>M \<in> set (db m ''Memories''). M ''uuid'' \<noteq> VText (uuid_source m (uuid_count m))"
    and "\<forall>j \<in> {1..4}. uuid_source m (uuid_count m + j) \<noteq> uuid_source m (uuid_count m)"
  shows
    "(let s = uuid_source m (uuid_count m);
          m' = snd (snapshot self m);
          archive_table = (case ARCHIVE_TABLE (node_class self) of Some a \<Rightarrow> a | None \<Rightarrow> tbl)
      in fst (snapshot self m) = Inr () \<and>
         (\<exists>srow nas. db m' ''Memories'' = db m ''Memories'' @ [srow] @ nas \<and>
            srow ''uuid'' = VText s \<and> srow ''is_snapshot'' = VInt 1 \<and>
            srow ''node_type'' = Me ''node_type'' \<and>
            (\<forall>M \<in> set nas. M ''node_type'' = VText ''NamedAbstraction'' \<and>
                             M ''is_snapshot'' = VInt 0)) \<and>
         Me \<in> set (db m' ''Memories'') \<and>
         (\<exists>extra. db m' tbl = db m tbl @ extra) \<and>
         (\<exists>rest'. filter (\<lambda>r. sql_eq (r ''uuid'') (VText (memid self))) (db m' tbl) = e # rest') \<and>
         (\<exists>r \<in> set (db m' archive_table). r ''uuid'' = VText s \<and>
            (\<forall>c \<in> set (TABLE_COLUMNS (node_class self)). c \<noteq> ''uuid'' \<longrightarrow> r c = e c)) \<and>
         (\<exists>t1 t2. db m' ''Triples'' = db m ''Triples'' @ [t1, t2] \<and>
            t1 ''subj'' = VText s \<and> t1 ''pred_text'' = VText ''_archive_of'' \<and>
            t1 ''obj'' = VText (memid self) \<and>
            t2 ''subj'' = VText (memid self) \<and> t2 ''pred_text'' = VText ''_has_archive'' \<and>
            t2 ''obj'' = VText s) \<and>
         (\<forall>memtype w. VText s \<notin> set (recent_memids m' memtype w)) \<and>
         (\<forall>memtype w ns. get_recent_entities m' memtype w = Inr ns \<longrightarrow> s \<notin> memid ` set ns))"
proof -
  define cls where "cls = node_class self"
  define u where "u = memid self"
  define s where "s = uuid_source m (uuid_count m)"
  define cols where "cols = TABLE_COLUMNS cls"
  define archive where "archive = (case ARCHIVE_TABLE cls of Some a \<Rightarrow> a | None \<Rightarrow> tbl)"
  define srow where "srow = make_row Memories_columns
      [VText s, py_str (NODE_TYPE cls), VInt (time m), VInt (time m), VInt (time m), py_bool True]
      no_defaults"
  define copy where "copy = make_row cols ((map e cols)[0 := VText s]) (table_defaults archive)"
  define m2 where "m2 = sql_insert archive copy (snd (new cls True m))"
  define m' where "m' = snd (link_archive_to_mem u s m2)"
  have core: "tbl \<noteq> ''Memories''" "tbl \<noteq> ''Triples''" "archive \<noteq> ''Memories''"
    "archive \<noteq> ''Triples''"
    using TABLE_not_core [OF assms(2)] by (simp_all add: archive_def cls_def)
  have read: "read_one m tbl cols u = Some (map e cols)"
    using assms(6) by (simp add: read_one_def project_def fetchone_def u_def)
  have snap: "snapshot self m = link_archive_to_mem u s m2"
    using assms(1,2) read
    by (simp add: snapshot_def split_beta Let_def cls_def [symmetric] u_def [symmetric]
          cols_def [symmetric] s_def archive_def m2_def copy_def)
  have m2_tables:
    "db m2 ''Memories'' = db m ''Memories'' @ [srow]"
    "db m2 ''Triples'' = db m ''Triples''"
    "db m2 tbl = db m tbl @ (if archive = tbl then [copy] else [])"
    "db m2 archive = db m archive @ [copy]"
    using core by (simp_all add: m2_def srow_def s_def)
  have m2_src: "uuid_source m2 = uuid_source m" "uuid_count m2 = Suc (uuid_count m)"
    by (simp_all add: m2_def)
  from link_effect [OF assms(7) assms(8), of m2, folded u_def s_def, folded m'_def]
  obtain t1 t2 nas extra where link:
    "link_archive_to_mem u s m2 = (Inr (), m')"
    "db m' ''Triples'' = db m2 ''Triples'' @ [t1, t2]"
    "t1 ''subj'' = VText s" "t1 ''pred_text'' = VText ''_archive_of''" "t1 ''obj'' = VText u"
    "t2 ''subj'' = VText u" "t2 ''pred_text'' = VText ''_has_archive''" "t2 ''obj'' = VText s"
    "db m' ''Memories'' = db m2 ''Memories'' @ nas"
    "abstraction_rows (uuid_source m2 ` {uuid_count m2 + 1 .. uuid_count m2 + 3}) nas"
    "db m' ''NamedAbstractions'' = db m2 ''NamedAbstractions'' @ extra"
    "\<forall>tbl. tbl \<noteq> ''Triples'' \<and> tbl \<noteq> ''Memories'' \<and> tbl \<noteq> ''NamedAbstractions'' \<longrightarrow>
        db m' tbl = db m2 tbl"
    by (elim exE conjE) (rule that; assumption)
  have grow: "\<exists>x. db m' t = db m2 t @ x" if "t \<noteq> ''Memories''" "t \<noteq> ''Triples''" for t
    using link(11,12) that by (cases "t = ''NamedAbstractions''") auto
  \<comment> \<open>entities\<close>
  have nas: "\<forall>M \<in> set nas. M ''node_type'' = VText ''NamedAbstraction'' \<and>
                M ''is_snapshot'' = VInt 0 \<and> M ''uuid'' \<noteq> VText s"
  proof
    fix M assume M: "M \<in> set nas"
    with link(10) obtain k where k: "k \<in> {uuid_count m2 + 1 .. uuid_count m2 + 3}"
      "M ''uuid'' = VText (uuid_source m2 k)"
      and kind: "M ''node_type'' = VText ''NamedAbstraction''" "M ''is_snapshot'' = VInt 0"
      by (auto simp add: abstraction_rows_def)
    from k(1) have "k - uuid_count m \<in> {1..4}" "k = uuid_count m + (k - uuid_count m)"
      by (auto simp add: m2_src)
    with assms(10) have "uuid_source m k \<noteq> s"
      unfolding s_def by metis
    with k(2) kind
    show "M ''node_type'' = VText ''NamedAbstraction'' \<and> M ''is_snapshot'' = VInt 0 \<and>
          M ''uuid'' \<noteq> VText s"
      by (simp add: m2_src)
  qed
  have memories: "db m' ''Memories'' = db m ''Memories'' @ [srow] @ nas"
    by (simp add: link(9) m2_tables)
  have srow: "srow ''uuid'' = VText s" "srow ''is_snapshot'' = VInt 1"
    "srow ''node_type'' = Me ''node_type''"
    by (simp_all add: srow_def py_bool_def assms(5) cls_def)
  \<comment> \<open>attribute rows\<close>
  from grow [OF core(1,2)] obtain x where x: "db m' tbl = db m2 tbl @ x" ..
  then have tbl: "db m' tbl = db m tbl @ ((if archive = tbl then [copy] else []) @ x)"
    by (simp add: m2_tables)
  have first: "filter (\<lambda>r. sql_eq (r ''uuid'') (VText u)) (db m' tbl) =
      e # (rest @ filter (\<lambda>r. sql_eq (r ''uuid'') (VText u)) ((if archive = tbl then [copy] else []) @ x))"
    unfolding tbl using assms(6) by (simp add: u_def)
  from grow [OF core(3,4)] obtain y where y: "db m' archive = db m2 archive @ y" ..
  have copy_in: "copy \<in> set (db m' archive)"
    by (simp add: y m2_tables)
  have copy: "copy ''uuid'' = VText s" "\<forall>c \<in> set cols. c \<noteq> ''uuid'' \<longrightarrow> copy c = e c"
    by (simp_all add: copy_def cols_def copy_row)
  \<comment> \<open>relations\<close>
  have triples: "db m' ''Triples'' = db m ''Triples'' @ [t1, t2]"
    by (simp add: link(2) m2_tables)
  \<comment> \<open>recency\<close>
  have not_live: "M ''uuid'' = VText s \<Longrightarrow> \<not> sql_eq (M ''is_snapshot'') (VInt 0)"
    if "M \<in> set (db m' ''Memories'')" for M
    using that assms(9) nas srow by (auto simp add: memories s_def)
  have recent: "VText s \<notin> set (recent_memids m' memtype w)" for memtype w
    using recent_memids_live [of "VText s" m' memtype w] not_live by blast
  have recent': "s \<notin> memid ` set ns" if "get_recent_entities m' memtype w = Inr ns" for memtype w ns
    using collect_memids [OF that [unfolded get_recent_entities_def]] recent [of memtype w]
    by auto
  have fst_snap: "fst (snapshot self m) = Inr ()" and snd_snap: "snd (snapshot self m) = m'"
    by (simp_all add: snap link(1))
  have A: "\<exists>srow nas. db m' ''Memories'' = db m ''Memories'' @ [srow] @ nas \<and>
            srow ''uuid'' = VText s \<and> srow ''is_snapshot'' = VInt 1 \<and>
            srow ''node_type'' = Me ''node_type'' \<and>
            (\<forall>M \<in> set nas. M ''node_type'' = VText ''NamedAbstraction'' \<and>
                             M ''is_snapshot'' = VInt 0)"
    using memories srow nas by blast
  have B: "Me \<in> set (db m' ''Memories'')"
    using assms(3) by (simp add: memories)
  have C: "\<exists>extra. db m' tbl = db m tbl @ extra"
    using tbl by blast
  have D: "\<exists>rest'. filter (\<lambda>r. sql_eq (r ''uuid'') (VText u)) (db m' tbl) = e # rest'"
    using first by blast
  have E: "\<exists>r \<in> set (db m' archive). r ''uuid'' = VText s \<and>
            (\<forall>c \<in> set cols. c \<noteq> ''uuid'' \<longrightarrow> r c = e c)"
    using copy_in copy by blast
  have F: "\<exists>t1 t2. db m' ''Triples'' = db m ''Triples'' @ [t1, t2] \<and>
            t1 ''subj'' = VText s \<and> t1 ''pred_text'' = VText ''_archive_of'' \<and>
            t1 ''obj'' = VText u \<and>
            t2 ''subj'' = VText u \<and> t2 ''pred_text'' = VText ''_has_archive'' \<and>
            t2 ''obj'' = VText s"
    using triples link(3-8) by blast
  show ?thesis
    unfolding Let_def fst_snap snd_snap
    unfolding s_def [symmetric] u_def [symmetric] cls_def [symmetric] archive_def [symmetric]
      cols_def [symmetric]
    using A B C D E F recent recent' by blast
qed


lemma chat_store_simps:
  "db chat_store ''Memories'' =
     db fresh_store ''Memories'' @
     [make_row Memories_columns
        [VText ''u05'', VText ''Time'', VInt 0, VInt 0, VInt 0, VInt 0] no_defaults]"
  "db chat_store ''Chats'' =
     [make_row [''uuid'', ''speaker'', ''chat'', ''time'']
        [VText ''u05'', VText ''speaker'', VText ''hello'', VInt 0] no_defaults]"
  "uuid_count chat_store = 6" "uuid_source chat_store = example_source"
  by (simp_all add: chat_store_def add_chat_def fresh_store_simps fresh_store_more example_source_def
        py_str_def py_bool_def)

lemma snapshot_store_alt: "snapshot_store = snd (snapshot chat_node chat_store)"
  by (simp add: snapshot_store_def)

lemma snapshot_archives_example:
  "fst (snapshot chat_node chat_store) = Inr () \<and>
   map (\<lambda>M. (M ''uuid'', M ''node_type'', M ''is_snapshot''))
     (drop (length (db chat_store ''Memories'')) (db (snd (snapshot chat_node chat_store)) ''Memories'')) =
     [(VText ''u06'', VText ''Time'', VInt 1), (VText ''u08'', VText ''NamedAbstraction'', VInt 0),
      (VText ''u10'', VText ''NamedAbstraction'', VInt 0)] \<and>
   VText ''u06'' \<notin> set (recent_memids (snd (snapshot chat_node chat_store)) ''Time'' 12000)"
proof -
  let ?Me = "make_row Memories_columns
        [VText ''u05'', VText ''Time'', VInt 0, VInt 0, VInt 0, VInt 0] no_defaults"
  let ?e = "make_row [''uuid'', ''speaker'', ''chat'', ''time'']
        [VText ''u05'', VText ''speaker'', VText ''hello'', VInt 0] no_defaults"
  have src: "uuid_source chat_store (uuid_count chat_store) = ''u06''"
    by (simp add: chat_store_simps example_source_def)
  have h1: "node_class chat_node \<noteq> SetNode" by (simp add: chat_node_def)
  have h2: "TABLE (node_class chat_node) = Some ''Chats''" by (simp add: chat_node_def)
  have h3: "?Me \<in> set (db chat_store ''Memories'')" by (simp add: chat_store_simps)
  have h4: "?Me ''uuid'' = VText (memid chat_node)" by (simp add: chat_node_def)
  have h5: "?Me ''node_type'' = py_str (NODE_TYPE (node_class chat_node))"
    by (simp add: chat_node_def py_str_def)
  have h6: "filter (\<lambda>r. sql_eq (r ''uuid'') (VText (memid chat_node))) (db chat_store ''Chats'') =
              ?e # []"
    by (simp add: chat_store_simps chat_node_def make_row_def)
  have h7: "memid chat_node \<noteq> []" by (simp add: chat_node_def)
  have h8: "uuid_source chat_store (uuid_count chat_store) \<noteq> []" by (simp add: src)
  have "VText ''u06'' \<notin> set (map (\<lambda>r. r ''uuid'') (db chat_store ''Memories''))"
    by (simp add: chat_store_simps fresh_store_more zeros_not_short)
  then have h9: "\<forall>M \<in> set (db chat_store ''Memories'').
                   M ''uuid'' \<noteq> VText (uuid_source chat_store (uuid_count chat_store))"
    unfolding src by (rule fresh_from_map)
  have h10: "\<forall>j \<in> {1..4}. uuid_source chat_store (uuid_count chat_store + j) \<noteq>
               uuid_source chat_store (uuid_count chat_store)"
  proof
    fix j :: nat assume "j \<in> {1..4}"
    then have "j = 1 \<or> j = 2 \<or> j = 3 \<or> j = 4" by auto
    then show "uuid_source chat_store (uuid_count chat_store + j) \<noteq>
               uuid_source chat_store (uuid_count chat_store)"
      by (auto simp add: chat_store_simps example_source_def)
  qed
  note th = snapshot_archives [OF h1 h2 h3 h4 h5 h6 h7 h8 h9 h10, unfolded Let_def src]
  from th have a: "fst (snapshot chat_node chat_store) = Inr ()"
    by (rule conjunct1)
  from th have "\<forall>memtype w. VText ''u06'' \<notin> set (recent_memids (snd (snapshot chat_node chat_store)) memtype w)"
    by blast
  then have b: "VText ''u06'' \<notin> set (recent_memids (snd (snapshot chat_node chat_store)) ''Time'' 12000)"
    by blast
  have c: "map (\<lambda>M. (M ''uuid'', M ''node_type'', M ''is_snapshot''))
     (drop (length (db chat_store ''Memories'')) (db (snd (snapshot chat_node chat_store)) ''Memories'')) =
     [(VText ''u06'', VText ''Time'', VInt 1), (VText ''u08'', VText ''NamedAbstraction'', VInt 0),
      (VText ''u10'', VText ''NamedAbstraction'', VInt 0)]"
    by (simp add: snapshot_store_alt [symmetric] snapshot_store_tables chat_store_simps
          fresh_store_tables)
  from a b c show ?thesis by blast
qed



end
